theory Spec2Isabelle
  imports Complex_Main
begin

section \<open>Strings, integers rendered in decimal, paths\<close>

text \<open>
  Shallow embedding of \<^verbatim>\<open>demo/lightning/checkpoint/simulated/multiprocessing_train.py\<close>.
  Python text is \<^typ>\<open>string\<close>; the f-string rendering of a non-negative integer
  (\<^verbatim>\<open>f'{i}'\<close>) is its decimal numeral.
\<close>

definition NL :: string where
  "NL = [CHR 0x0A]"

definition digit :: "nat \<Rightarrow> char" where
  "digit d = ''0123456789'' ! d"

fun str_nat :: "nat \<Rightarrow> string" where
  "str_nat n = (if n < 10 then [digit n] else str_nat (n div 10) @ [digit (n mod 10)])"

declare str_nat.simps [simp del]

definition str_int :: "int \<Rightarrow> string" where
  "str_int i = (if i < 0 then ''-'' @ str_nat (nat (- i)) else str_nat (nat i))"

text \<open>\<^verbatim>\<open>range(n)\<close> for a Python int: empty when \<open>n \<le> 0\<close>.\<close>

definition py_range :: "int \<Rightarrow> nat list" where
  "py_range n = [0..<nat n]"

text \<open>
  \<^verbatim>\<open>os.path.join(a, b)\<close> of posixpath, for two components: an absolute \<open>b\<close> replaces
  \<open>a\<close>; otherwise a separator is inserted unless \<open>a\<close> is empty or already ends in one.
\<close>

definition os_path_join :: "string \<Rightarrow> string \<Rightarrow> string" where
  "os_path_join a b =
     (if b \<noteq> [] \<and> hd b = CHR ''/'' then b
      else if a = [] \<or> last a = CHR ''/'' then a @ b
      else a @ ''/'' @ b)"

section \<open>Exceptions\<close>

text \<open>
  The script defines no exception class and no handler. These are the exceptions that
  can arise: the library errors decided by the arguments alone, and \<open>External\<close> for
  whatever the distributed runtime, the checkpoint library, the storage client or the
  operating system raises.
\<close>

datatype exn =
    AttributeError
  | RuntimeError
  | StatisticsError
  | ZeroDivisionError
  | SystemExit
  | ProcessRaisedException
  | External string

section \<open>Tensors, modules, state dicts\<close>

text \<open>
  A tensor is a reference to storage: its shape, the size of one element in bytes and the
  identity of its storage. Two tensors with the same storage are the same data; the values
  held in storage are external and never inspected by the script.
\<close>

record tensor =
  shape :: "nat list"
  element_size :: nat
  storage :: nat

definition numel :: "tensor \<Rightarrow> nat" where
  "numel t = prod_list (shape t)"

definition get_tensor_size_bytes :: "tensor \<Rightarrow> nat" where
  "get_tensor_size_bytes t = element_size t * numel t"

text \<open>
  An \<^verbatim>\<open>nn.Module\<close>: its printed form, its own parameters by name, its children by
  name (in registration order).
\<close>

datatype module = Module (repr: string) (parameters: "(string \<times> tensor) list")
  (named_children: "(string \<times> module) list")

definition children :: "module \<Rightarrow> module list" where
  "children m = map snd (named_children m)"

text \<open>
  A Python dict keeps insertion order; assigning to a present key replaces the value in
  place, assigning to an absent key appends.
\<close>

type_synonym 'v dict = "(string \<times> 'v) list"

primrec setitem :: "string \<Rightarrow> 'v \<Rightarrow> 'v dict \<Rightarrow> 'v dict" where
  "setitem k v [] = [(k, v)]"
| "setitem k v (p # ps) = (if fst p = k then (k, v) # ps else p # setitem k v ps)"

definition keys :: "'v dict \<Rightarrow> string list" where
  "keys d = map fst d"

definition values_of :: "'v dict \<Rightarrow> 'v list" where
  "values_of d = map snd d"

definition getitem :: "'v dict \<Rightarrow> string \<Rightarrow> 'v option" where
  "getitem d k = map_of d k"

text \<open>
  \<^verbatim>\<open>named_parameters()\<close>: the module's own parameters, then those of each child with the
  child's name and a dot in front. \<^verbatim>\<open>state_dict()\<close> assigns them in that order to a
  fresh ordered dict (these modules have no buffers); the tensors share the parameters'
  storage.
\<close>

fun named_parameters :: "module \<Rightarrow> (string \<times> tensor) list" where
  "named_parameters (Module r ps cs) =
     ps @ concat (map (\<lambda>(n, c). map (\<lambda>(k, t). (n @ ''.'' @ k, t)) (named_parameters c)) cs)"

definition state_dict :: "module \<Rightarrow> tensor dict" where
  "state_dict m = fold (\<lambda>(k, t) d. setitem k t d) (named_parameters m) []"

section \<open>The outside world: external calls, the clock, the trace\<close>

text \<open>
  Everything the script does to the outside is recorded, in order, as an event: the calls
  into the distributed runtime, the checkpoint library and the storage client, the clock
  readings, the printed lines and the files written. Formatted numbers keep their value:
  \<open>PrintSeconds l x\<close> is the line \<^verbatim>\<open>f"{l} {x:.4f} seconds"\<close>, \<open>PrintSize l z\<close> the line
  of label \<open>l\<close> and \<^verbatim>\<open>format_size\<close>'s text \<open>z\<close>.
\<close>

datatype storage_layer =
    GCSDistributedWriter string string
  | GCSDistributedReader string string

datatype size_text = Bytes real | KB real | MB real | GB real

datatype event =
    SetEnv string string
  | InitProcessGroup string int int
  | FSDPStrategyInit
  | NewStorageLayer storage_layer
  | Barrier
  | Time real
  | DistCpSave "tensor dict" string storage_layer
  | DistCpLoad "tensor dict" string storage_layer
  | DestroyProcessGroup
  | Print string
  | PrintShapes string "(string \<times> nat list) list"
  | PrintSeconds string real
  | PrintSize string size_text
  | WriteFile string "string list"

text \<open>
  The world answers the script: whether the interaction issued at position \<open>k\<close> of the
  trace raises, what the clock shows when it is read there, and how a tensor's values
  print. The script's state is the trace so far and the next fresh storage identity.
\<close>

record world =
  raises :: "nat \<Rightarrow> exn option"
  clock :: "nat \<Rightarrow> real"
  tensor_str :: "tensor \<Rightarrow> string"

record st =
  trace :: "event list"
  next_storage :: nat

definition init_st :: st where
  "init_st = \<lparr>trace = [], next_storage = 0\<rparr>"

type_synonym ('s, 'a) prog = "'s \<Rightarrow> (exn + 'a) \<times> 's"

definition return :: "'a \<Rightarrow> ('s, 'a) prog" where
  "return x s = (Inr x, s)"

definition raise :: "exn \<Rightarrow> ('s, 'a) prog" where
  "raise e s = (Inl e, s)"

text \<open>Sequencing: an exception ends the computation, nothing catches it.\<close>

definition seq :: "('s, 'a) prog \<Rightarrow> ('a \<Rightarrow> ('s, 'b) prog) \<Rightarrow> ('s, 'b) prog" where
  "seq p f s = (case p s of (Inl e, s') \<Rightarrow> (Inl e, s') | (Inr x, s') \<Rightarrow> f x s')"

definition of_result :: "exn + 'a \<Rightarrow> ('s, 'a) prog" where
  "of_result r s = (r, s)"

definition call :: "world \<Rightarrow> event \<Rightarrow> (st, unit) prog" where
  "call w ev s =
     ((case raises w (length (trace s)) of None \<Rightarrow> Inr () | Some e \<Rightarrow> Inl e),
      s\<lparr>trace := trace s @ [ev]\<rparr>)"

definition time_time :: "world \<Rightarrow> (st, real) prog" where
  "time_time w s =
     (let t = clock w (length (trace s)) in
      ((case raises w (length (trace s)) of None \<Rightarrow> Inr t | Some e \<Rightarrow> Inl e),
       s\<lparr>trace := trace s @ [Time t]\<rparr>))"

text \<open>A fresh tensor (\<^verbatim>\<open>torch.empty\<close>, \<^verbatim>\<open>torch.randn\<close>): float32, new storage; a negative
  dimension is a RuntimeError.\<close>

definition new_tensor :: "int list \<Rightarrow> (st, tensor) prog" where
  "new_tensor sizes s =
     (if \<exists>n \<in> set sizes. n < 0 then (Inl RuntimeError, s)
      else (Inr \<lparr>shape = map nat sizes, element_size = 4, storage = next_storage s\<rparr>,
            s\<lparr>next_storage := Suc (next_storage s)\<rparr>))"

definition empty_like :: "tensor \<Rightarrow> (st, tensor) prog" where
  "empty_like t s =
     (Inr \<lparr>shape = shape t, element_size = element_size t, storage = next_storage s\<rparr>,
      s\<lparr>next_storage := Suc (next_storage s)\<rparr>)"

section \<open>Constants and small functions of the script\<close>

definition MASTER_ADDR :: string where
  "MASTER_ADDR = ''localhost''"

definition MASTER_PORT :: string where
  "MASTER_PORT = ''12355''"

definition BYTES_PER_KB :: int where
  "BYTES_PER_KB = 1024"

definition BYTES_PER_MB :: int where
  "BYTES_PER_MB = BYTES_PER_KB * 1024"

definition BYTES_PER_GB :: int where
  "BYTES_PER_GB = BYTES_PER_MB * 1024"

definition format_size :: "real \<Rightarrow> size_text" where
  "format_size size_bytes =
     (if size_bytes < of_int BYTES_PER_KB then Bytes size_bytes
      else if size_bytes < of_int BYTES_PER_MB then KB (size_bytes / of_int BYTES_PER_KB)
      else if size_bytes < of_int BYTES_PER_GB then MB (size_bytes / of_int BYTES_PER_MB)
      else GB (size_bytes / of_int BYTES_PER_GB))"

text \<open>\<^verbatim>\<open>statistics.mean\<close>: the exact sum over the count; no data is a StatisticsError.\<close>

definition statistics_mean :: "real list \<Rightarrow> exn + real" where
  "statistics_mean xs =
     (if xs = [] then Inl StatisticsError else Inr (sum_list xs / real (length xs)))"

fun join :: "string \<Rightarrow> string list \<Rightarrow> string" where
  "join sep [] = []"
| "join sep [x] = x"
| "join sep (x # y # ys) = x @ sep @ join sep (y # ys)"

definition str_shape :: "nat list \<Rightarrow> string" where
  "str_shape sh = ''torch.Size(['' @ join '', '' (map str_nat sh) @ ''])''"

section \<open>The synthetic model\<close>

text \<open>
  \<^verbatim>\<open>nn.Linear(i, o)\<close> owns a weight of shape \<open>o \<times> i\<close> and a bias of shape \<open>o\<close> and has
  no children. A Python object of the script is a module with, possibly, the attribute
  \<^verbatim>\<open>dummy_tensors\<close> (a plain list: it is no parameter and \<^verbatim>\<open>state_dict()\<close> does not
  hold it).
\<close>

definition Linear :: "int \<Rightarrow> int \<Rightarrow> (st, module) prog" where
  "Linear in_features out_features =
     seq (new_tensor [out_features, in_features]) (\<lambda>weight.
     seq (new_tensor [out_features]) (\<lambda>bias.
     return (Module (''Linear(in_features='' @ str_int in_features @ '', out_features=''
                       @ str_int out_features @ '', bias=True)'')
               [(''weight'', weight), (''bias'', bias)] [])))"

record pymodel =
  net :: module
  dummy_tensors :: "tensor list option"

fun randn_list :: "int \<Rightarrow> nat list \<Rightarrow> (st, tensor list) prog" where
  "randn_list sz [] = return []"
| "randn_list sz (i # rest) =
     seq (new_tensor [sz, sz]) (\<lambda>t.
     seq (randn_list sz rest) (\<lambda>ts. return (t # ts)))"

definition SimpleModel :: "int \<Rightarrow> int \<Rightarrow> (st, pymodel) prog" where
  "SimpleModel sz padding_size =
     seq (Linear sz sz) (\<lambda>fc1.
     seq (Linear sz sz) (\<lambda>fc2.
     seq (randn_list sz (py_range padding_size)) (\<lambda>ts.
     return \<lparr>net = Module (''SimpleModel('' @ NL @ ''  (fc1): '' @ repr fc1 @ NL
                              @ ''  (fc2): '' @ repr fc2 @ NL @ '')'')
                     [] [(''fc1'', fc1), (''fc2'', fc2)],
             dummy_tensors = Some ts\<rparr>)))"

section \<open>Debug output\<close>

text \<open>
  A file opened for writing is the list of the strings written to it. The two arguments
  of \<^verbatim>\<open>write_model_structure_to_file\<close> are untyped at run time: each is the file object
  or a module. \<^verbatim>\<open>file.write\<close> on a module and \<^verbatim>\<open>model.named_children()\<close> on a file are
  attribute errors; a write to the file itself is taken to succeed.
\<close>

datatype pyobj = TextIO | ModuleObj module

definition file_write :: "pyobj \<Rightarrow> string \<Rightarrow> (string list, unit) prog" where
  "file_write f x buf =
     (case f of TextIO \<Rightarrow> (Inr (), buf @ [x]) | ModuleObj m \<Rightarrow> (Inl AttributeError, buf))"

fun write_parameters ::
  "world \<Rightarrow> pyobj \<Rightarrow> string \<Rightarrow> (string \<times> tensor) list \<Rightarrow> (string list, unit) prog" where
  "write_parameters w f indent [] = return ()"
| "write_parameters w f indent ((param_name, param) # rest) =
     seq (file_write f (indent @ ''    '' @ param_name @ '': '' @ str_shape (shape param) @ NL)) (\<lambda>_.
     seq (file_write f (indent @ ''      Values: '' @ tensor_str w param @ NL)) (\<lambda>_.
     write_parameters w f indent rest))"

function write_model_structure_to_file ::
    "world \<Rightarrow> pyobj \<Rightarrow> pyobj \<Rightarrow> string \<Rightarrow> (string list, unit) prog"
  and write_children ::
    "world \<Rightarrow> pyobj \<Rightarrow> (string \<times> module) list \<Rightarrow> string \<Rightarrow> (string list, unit) prog"
where
  "write_model_structure_to_file w f model indent buf =
     (case model of
        TextIO \<Rightarrow> (Inl AttributeError, buf)
      | ModuleObj m \<Rightarrow> write_children w f (named_children m) indent buf)"
| "write_children w f [] indent buf = (Inr (), buf)"
| "write_children w f ((name, c) # rest) indent buf =
     (case file_write f (indent @ name @ '':'' @ NL) buf of
        (Inl e, buf1) \<Rightarrow> (Inl e, buf1)
      | (Inr u, buf1) \<Rightarrow>
          (case (if children c \<noteq> []
                 then write_model_structure_to_file w (ModuleObj c) f (indent @ ''  '') buf1
                 else seq (file_write f (indent @ ''  '' @ repr c @ NL))
                        (\<lambda>_. write_parameters w f indent (named_parameters c)) buf1) of
             (Inl e, buf2) \<Rightarrow> (Inl e, buf2)
           | (Inr u, buf2) \<Rightarrow> write_children w f rest indent buf2))"
  by pat_completeness auto
termination
  by (relation "measure (\<lambda>x. case x of
        Inl (w, f, model, indent, buf) \<Rightarrow>
          (case model of TextIO \<Rightarrow> 0 | ModuleObj m \<Rightarrow> length (named_children m) + 2)
      | Inr (w, f, cs, indent, buf) \<Rightarrow> length cs + 1)")
     (auto simp: file_write_def split: pyobj.splits)

fun write_tensors ::
  "world \<Rightarrow> (string \<times> tensor) list \<Rightarrow> (string list, unit) prog" where
  "write_tensors w [] = return ()"
| "write_tensors w ((k, v) # rest) =
     seq (file_write TextIO (k @ '':'' @ NL)) (\<lambda>_.
     seq (file_write TextIO (''  Shape: '' @ str_shape (shape v) @ NL)) (\<lambda>_.
     seq (file_write TextIO (''  Values: '' @ tensor_str w v @ NL)) (\<lambda>_.
     write_tensors w rest)))"

definition dummy_name :: "nat \<Rightarrow> string" where
  "dummy_name i = ''dummy_tensor_'' @ str_nat i"

text \<open>In \<^verbatim>\<open>write_full_model\<close> the dummy tensors are written inside the loop over the
  state dict, once per key, as the source's indentation has it.\<close>

fun write_state_items ::
  "world \<Rightarrow> pymodel \<Rightarrow> (string \<times> tensor) list \<Rightarrow> (string list, unit) prog" where
  "write_state_items w model [] = return ()"
| "write_state_items w model ((k, v) # rest) =
     seq (write_tensors w [(k, v)]) (\<lambda>_.
     seq (case dummy_tensors model of
            None \<Rightarrow> return ()
          | Some ts \<Rightarrow>
              seq (file_write TextIO (NL @ ''Dummy Tensors:'' @ NL)) (\<lambda>_.
              write_tensors w (map (\<lambda>(i, t). (dummy_name i, t)) (enumerate 0 ts)))) (\<lambda>_.
     write_state_items w model rest))"

text \<open>The file is opened, written and closed as one interaction with the world; what the
  body raises after that propagates. Note the order of the arguments in the call of
  \<^verbatim>\<open>write_model_structure_to_file(model, f)\<close>.\<close>

definition write_full_model :: "world \<Rightarrow> pymodel \<Rightarrow> string \<Rightarrow> (st, unit) prog" where
  "write_full_model w model filename =
     (case seq (file_write TextIO (''Model Structure:'' @ NL)) (\<lambda>_.
           seq (write_model_structure_to_file w (ModuleObj (net model)) TextIO []) (\<lambda>_.
           seq (file_write TextIO (NL @ ''Model State Dict:'' @ NL)) (\<lambda>_.
           write_state_items w model (state_dict (net model))))) [] of
        (r, buf) \<Rightarrow> seq (call w (WriteFile filename buf)) (\<lambda>_. of_result r))"

definition write_state_dict_to_file :: "world \<Rightarrow> tensor dict \<Rightarrow> string \<Rightarrow> (st, unit) prog" where
  "write_state_dict_to_file w d filename =
     (case seq (file_write TextIO (''State Dict:'' @ NL)) (\<lambda>_. write_tensors w d) [] of
        (r, buf) \<Rightarrow> seq (call w (WriteFile filename buf)) (\<lambda>_. of_result r))"

section \<open>Process group, strategy, checkpoint operations\<close>

text \<open>\<^verbatim>\<open>setup(rank, world_size)\<close> of the script.\<close>

definition setup_process_group :: "world \<Rightarrow> int \<Rightarrow> int \<Rightarrow> (st, unit) prog" where
  "setup_process_group w rank world_size =
     seq (call w (SetEnv ''MASTER_ADDR'' MASTER_ADDR)) (\<lambda>_.
     seq (call w (SetEnv ''MASTER_PORT'' MASTER_PORT)) (\<lambda>_.
     call w (InitProcessGroup ''gloo'' rank world_size)))"

definition cleanup :: "world \<Rightarrow> (st, unit) prog" where
  "cleanup w = call w DestroyProcessGroup"

record benchmark_strategy =
  writer :: storage_layer
  reader :: storage_layer
  strategy_model :: pymodel

definition BenchmarkStrategy ::
  "world \<Rightarrow> string \<Rightarrow> string \<Rightarrow> pymodel \<Rightarrow> (st, benchmark_strategy) prog" where
  "BenchmarkStrategy w project path model =
     seq (call w FSDPStrategyInit) (\<lambda>_.
     seq (call w (NewStorageLayer (GCSDistributedWriter path project))) (\<lambda>_.
     seq (call w (NewStorageLayer (GCSDistributedReader path project))) (\<lambda>_.
     return \<lparr>writer = GCSDistributedWriter path project,
             reader = GCSDistributedReader path project,
             strategy_model = model\<rparr>)))"

definition save_checkpoint ::
  "world \<Rightarrow> benchmark_strategy \<Rightarrow> tensor dict \<Rightarrow> string \<Rightarrow> (st, unit) prog" where
  "save_checkpoint w self checkpoint filepath =
     call w (DistCpSave checkpoint filepath (writer self))"

definition load_checkpoint ::
  "world \<Rightarrow> benchmark_strategy \<Rightarrow> string \<Rightarrow> tensor dict \<Rightarrow> (st, unit) prog" where
  "load_checkpoint w self checkpoint_path initial_state_dict =
     call w (DistCpLoad initial_state_dict checkpoint_path (reader self))"

section \<open>The timing loop\<close>

text \<open>
  The template: every entry of \<^verbatim>\<open>model.state_dict()\<close> replaced, key by key, by an empty
  tensor like it; then one entry per dummy tensor when the model has the attribute.
\<close>

fun empty_template :: "(string \<times> tensor) list \<Rightarrow> tensor dict \<Rightarrow> (st, tensor dict) prog" where
  "empty_template [] d = return d"
| "empty_template ((k, t) # rest) d =
     seq (empty_like t) (\<lambda>e. empty_template rest (setitem k e d))"

fun dummy_templates :: "(nat \<times> tensor) list \<Rightarrow> tensor dict \<Rightarrow> (st, tensor dict) prog" where
  "dummy_templates [] d = return d"
| "dummy_templates ((i, t) # rest) d =
     seq (empty_like t) (\<lambda>e. dummy_templates rest (setitem (dummy_name i) e d))"

definition template_state_dict :: "pymodel \<Rightarrow> (st, tensor dict) prog" where
  "template_state_dict model =
     seq (empty_template (state_dict (net model)) (state_dict (net model))) (\<lambda>d.
     case dummy_tensors model of
       None \<Rightarrow> return d
     | Some ts \<Rightarrow> dummy_templates (enumerate 0 ts) d)"

text \<open>
  The list \<^verbatim>\<open>times\<close> is a mutable object of the loop: the loop's state is the list
  together with the script's state, so that it can be inspected when an iteration raises.
\<close>

definition lift :: "(st, 'a) prog \<Rightarrow> (real list \<times> st, 'a) prog" where
  "lift p = (\<lambda>(tms, s). case p s of (r, s') \<Rightarrow> (r, (tms, s')))"

definition times_append :: "real \<Rightarrow> (real list \<times> st, unit) prog" where
  "times_append x = (\<lambda>(tms, s). (Inr (), (tms @ [x], s)))"

definition checkpoint_path_of :: "string \<Rightarrow> nat \<Rightarrow> string" where
  "checkpoint_path_of filepath i =
     os_path_join filepath (''checkpoints/ckpt_'' @ str_nat i @ ''.ckpt'')"

fun time_loop ::
  "world \<Rightarrow> benchmark_strategy \<Rightarrow> tensor dict \<Rightarrow> string \<Rightarrow> string \<Rightarrow> tensor dict \<Rightarrow>
   nat list \<Rightarrow> (real list \<times> st, unit) prog" where
  "time_loop w bs distributed_state_dict filepath operation template [] = return ()"
| "time_loop w bs distributed_state_dict filepath operation template (i # rest) =
     (let checkpoint_path = checkpoint_path_of filepath i in
      seq (lift (call w Barrier)) (\<lambda>_.
      seq (lift (time_time w)) (\<lambda>start_time.
      seq (lift (if operation = ''save''
                 then save_checkpoint w bs distributed_state_dict checkpoint_path
                 else if operation = ''load''
                 then load_checkpoint w bs checkpoint_path template
                 else return ())) (\<lambda>_.
      seq (lift (call w Barrier)) (\<lambda>_.
      seq (lift (time_time w)) (\<lambda>end_time.
      seq (times_append (end_time - start_time)) (\<lambda>_.
      seq (lift (call w (Print (''Completed iteration '' @ str_nat i @ '' for ''
                                  @ operation @ '' ...'')))) (\<lambda>_.
      time_loop w bs distributed_state_dict filepath operation template rest))))))))"

definition time_checkpoint_operation ::
  "world \<Rightarrow> benchmark_strategy \<Rightarrow> tensor dict \<Rightarrow> string \<Rightarrow> int \<Rightarrow> string \<Rightarrow> pymodel \<Rightarrow>
   (st, real list) prog" where
  "time_checkpoint_operation w bs distributed_state_dict filepath sample_count operation model =
     seq (template_state_dict model) (\<lambda>template s.
       case time_loop w bs distributed_state_dict filepath operation template
              (py_range sample_count) ([], s) of
         (Inl e, (tms, s')) \<Rightarrow> (Inl e, s')
       | (Inr u, (tms, s')) \<Rightarrow> (Inr tms, s'))"

section \<open>The benchmark run\<close>

text \<open>The state mapping of lines 309 to 311: the model's state dict, then one entry per
  dummy tensor, the tensor itself.\<close>

definition add_dummy_tensors :: "tensor list \<Rightarrow> tensor dict \<Rightarrow> tensor dict" where
  "add_dummy_tensors ts d = fold (\<lambda>(i, t) d. setitem (dummy_name i) t d) (enumerate 0 ts) d"

definition shapes_of :: "tensor dict \<Rightarrow> (string \<times> nat list) list" where
  "shapes_of d = map (\<lambda>(k, v). (k, shape v)) d"

definition total_size_bytes :: "tensor dict \<Rightarrow> nat" where
  "total_size_bytes d = sum_list (map get_tensor_size_bytes (values_of d))"

text \<open>The body of \<^verbatim>\<open>if rank == 0:\<close> after the two timing loops (lines 332 to 351).\<close>

definition report ::
  "world \<Rightarrow> int \<Rightarrow> int \<Rightarrow> tensor dict \<Rightarrow> bool \<Rightarrow> real list \<Rightarrow> real list \<Rightarrow> (st, unit) prog" where
  "report w rank world_size sd debug save_checkpoint_times load_checkpoint_times =
     seq (of_result (statistics_mean save_checkpoint_times)) (\<lambda>save_mean.
     seq (call w (PrintSeconds ''Time taken to save checkpoint:'' save_mean)) (\<lambda>_.
     seq (of_result (statistics_mean load_checkpoint_times)) (\<lambda>load_mean.
     seq (call w (PrintSeconds ''Time taken to load checkpoint:'' load_mean)) (\<lambda>_.
     seq (if world_size = 0 then raise ZeroDivisionError
          else return (real (total_size_bytes sd) / real_of_int world_size)) (\<lambda>per_rank.
     seq (call w (PrintSize (''Size of distributed tensors (rank '' @ str_int rank @ ''):'')
                    (format_size per_rank))) (\<lambda>_.
     seq (call w (PrintSize ''Total size of all tensors:''
                    (format_size (real (total_size_bytes sd))))) (\<lambda>_.
     seq (call w (Print ''######################'')) (\<lambda>_.
     if debug then
       seq (call w (Print ''State dict after loading:'')) (\<lambda>_.
       seq (write_state_dict_to_file w sd ''state_dict_after_load.txt'') (\<lambda>_.
       call w (PrintShapes ''Shapes after loading:'' (shapes_of sd))))
     else return ()))))))))"

definition run_benchmark ::
  "world \<Rightarrow> int \<Rightarrow> int \<Rightarrow> int \<Rightarrow> string \<Rightarrow> string \<Rightarrow> int \<Rightarrow> int \<Rightarrow> bool \<Rightarrow> (st, unit) prog" where
  "run_benchmark w rank world_size layer_size project filepath padding_size sample_count debug =
     seq (setup_process_group w rank world_size) (\<lambda>_.
     seq (SimpleModel layer_size padding_size) (\<lambda>model.
     seq (if rank = 0 \<and> debug then
            seq (call w (Print ''Writing initial model structure and parameters to file...'')) (\<lambda>_.
            write_full_model w model ''initial_model_state.txt'')
          else return ()) (\<lambda>_.
     seq (BenchmarkStrategy w project filepath model) (\<lambda>bs.
     seq (case dummy_tensors model of
            None \<Rightarrow> raise AttributeError
          | Some ts \<Rightarrow> return (add_dummy_tensors ts (state_dict (net model)))) (\<lambda>sd.
     seq (if rank = 0 \<and> debug then
            seq (call w (Print ''Writing state dict before saving to file...'')) (\<lambda>_.
            seq (write_state_dict_to_file w sd ''state_dict_before_save.txt'') (\<lambda>_.
            call w (PrintShapes ''Shapes before saving:'' (shapes_of sd))))
          else return ()) (\<lambda>_.
     seq (call w Barrier) (\<lambda>_.
     seq (time_checkpoint_operation w bs sd filepath sample_count ''save'' model)
       (\<lambda>save_checkpoint_times.
     seq (time_checkpoint_operation w bs sd filepath sample_count ''load'' model)
       (\<lambda>load_checkpoint_times.
     seq (if rank = 0
          then report w rank world_size sd debug save_checkpoint_times load_checkpoint_times
          else return ()) (\<lambda>_.
     cleanup w))))))))))"

section \<open>The entry point\<close>

text \<open>
  The namespace \<^verbatim>\<open>parse_args()\<close> returns, one field per flag. \<^verbatim>\<open>argparse\<close> itself is a
  library: \<^verbatim>\<open>main\<close> is given what it returned, or the exception it raised.
  \<^verbatim>\<open>mp.spawn(run_benchmark, args, nprocs=world_size, join=True)\<close> runs one process per
  rank in \<^verbatim>\<open>range(world_size)\<close>, each against its own view of the world, and raises in
  the parent if one of them raised.
\<close>

record namespace =
  arg_project :: string
  arg_ckpt_dir_path :: string
  arg_layer_size :: int
  arg_clear_kernel_cache :: bool
  arg_sample_count :: int
  arg_padding_size :: int
  arg_world_size :: int
  arg_debug :: bool

definition main ::
  "(nat \<Rightarrow> world) \<Rightarrow> exn + namespace \<Rightarrow> ((exn + unit) \<times> st) list \<times> (exn + unit)" where
  "main worlds parsed =
     (case parsed of
        Inl e \<Rightarrow> ([], Inl e)
      | Inr args \<Rightarrow>
          (let runs = map (\<lambda>rank. run_benchmark (worlds rank) (int rank) (arg_world_size args)
                             (arg_layer_size args) (arg_project args) (arg_ckpt_dir_path args)
                             (arg_padding_size args) (arg_sample_count args) (arg_debug args)
                             init_st)
                        (py_range (arg_world_size args))
           in (runs, if \<exists>r \<in> set runs. isl (fst r) then Inl ProcessRaisedException
                     else Inr ())))"

section \<open>Closed forms\<close>

text \<open>
  What the definitions above compute when no interaction raises, written out: the model
  \<^verbatim>\<open>SimpleModel(sz, p)\<close> whose first tensor has storage \<open>a\<close>, the entries of its state
  mapping, the events of the timing loop by their position in the trace. The lemmas of
  the next section prove that the script computes exactly these.
\<close>

definition mk_tensor :: "nat list \<Rightarrow> nat \<Rightarrow> tensor" where
  "mk_tensor sh a = \<lparr>shape = sh, element_size = 4, storage = a\<rparr>"

definition linear_module :: "int \<Rightarrow> nat \<Rightarrow> module" where
  "linear_module sz a =
     Module (''Linear(in_features='' @ str_int sz @ '', out_features='' @ str_int sz
               @ '', bias=True)'')
       [(''weight'', mk_tensor [nat sz, nat sz] a), (''bias'', mk_tensor [nat sz] (a + 1))] []"

definition padding_tensors :: "int \<Rightarrow> nat \<Rightarrow> nat \<Rightarrow> tensor list" where
  "padding_tensors sz n a = map (\<lambda>j. mk_tensor [nat sz, nat sz] (a + j)) [0..<n]"

definition simple_model :: "int \<Rightarrow> int \<Rightarrow> nat \<Rightarrow> pymodel" where
  "simple_model sz p a =
     \<lparr>net = Module (''SimpleModel('' @ NL @ ''  (fc1): '' @ repr (linear_module sz a) @ NL
                      @ ''  (fc2): '' @ repr (linear_module sz (a + 2)) @ NL @ '')'')
             [] [(''fc1'', linear_module sz a), (''fc2'', linear_module sz (a + 2))],
      dummy_tensors = Some (padding_tensors sz (nat p) (a + 4))\<rparr>"

definition state_entries :: "int \<Rightarrow> int \<Rightarrow> nat \<Rightarrow> tensor dict" where
  "state_entries sz p a =
     [(''fc1.weight'', mk_tensor [nat sz, nat sz] a),
      (''fc1.bias'', mk_tensor [nat sz] (a + 1)),
      (''fc2.weight'', mk_tensor [nat sz, nat sz] (a + 2)),
      (''fc2.bias'', mk_tensor [nat sz] (a + 3))]
     @ map (\<lambda>(i, t). (dummy_name i, t)) (enumerate 0 (padding_tensors sz (nat p) (a + 4)))"

definition quiet :: "world \<Rightarrow> bool" where
  "quiet w \<longleftrightarrow> (\<forall>k. raises w k = None)"


definition op_event ::
  "benchmark_strategy \<Rightarrow> tensor dict \<Rightarrow> tensor dict \<Rightarrow> string \<Rightarrow> string \<Rightarrow> nat \<Rightarrow> event" where
  "op_event bs sd template filepath operation i =
     (if operation = ''save'' then DistCpSave sd (checkpoint_path_of filepath i) (writer bs)
      else DistCpLoad template (checkpoint_path_of filepath i) (reader bs))"

definition iteration_events :: "world \<Rightarrow> string \<Rightarrow> event \<Rightarrow> nat \<Rightarrow> nat \<Rightarrow> event list" where
  "iteration_events w operation opev k i =
     [Barrier, Time (clock w (k + 1)), opev, Barrier, Time (clock w (k + 4)),
      Print (''Completed iteration '' @ str_nat i @ '' for '' @ operation @ '' ...'')]"

fun loop_events :: "world \<Rightarrow> string \<Rightarrow> (nat \<Rightarrow> event) \<Rightarrow> nat \<Rightarrow> nat list \<Rightarrow> event list" where
  "loop_events w operation opev k [] = []"
| "loop_events w operation opev k (i # rest) =
     iteration_events w operation (opev i) k i @ loop_events w operation opev (k + 6) rest"

fun loop_samples :: "world \<Rightarrow> nat \<Rightarrow> nat list \<Rightarrow> real list" where
  "loop_samples w k [] = []"
| "loop_samples w k (i # rest) = (clock w (k + 4) - clock w (k + 1)) # loop_samples w (k + 6) rest"

definition report_events ::
  "int \<Rightarrow> int \<Rightarrow> tensor dict \<Rightarrow> real list \<Rightarrow> real list \<Rightarrow> event list" where
  "report_events rank world_size sd save_times load_times =
     [PrintSeconds ''Time taken to save checkpoint:''
        (sum_list save_times / real (length save_times)),
      PrintSeconds ''Time taken to load checkpoint:''
        (sum_list load_times / real (length load_times)),
      PrintSize (''Size of distributed tensors (rank '' @ str_int rank @ ''):'')
        (format_size (real (total_size_bytes sd) / real_of_int world_size)),
      PrintSize ''Total size of all tensors:'' (format_size (real (total_size_bytes sd))),
      Print ''######################'']"

definition startup_events :: "int \<Rightarrow> int \<Rightarrow> string \<Rightarrow> string \<Rightarrow> event list" where
  "startup_events rank world_size project filepath =
     [SetEnv ''MASTER_ADDR'' MASTER_ADDR, SetEnv ''MASTER_PORT'' MASTER_PORT,
      InitProcessGroup ''gloo'' rank world_size,
      FSDPStrategyInit,
      NewStorageLayer (GCSDistributedWriter filepath project),
      NewStorageLayer (GCSDistributedReader filepath project),
      Barrier]"

definition save_events :: "world \<Rightarrow> int \<Rightarrow> string \<Rightarrow> string \<Rightarrow> int \<Rightarrow> int \<Rightarrow> event list" where
  "save_events w sz project filepath p n =
     loop_events w ''save''
       (\<lambda>i. DistCpSave (state_entries sz p 0) (checkpoint_path_of filepath i)
              (GCSDistributedWriter filepath project))
       7 (py_range n)"

definition load_events :: "world \<Rightarrow> int \<Rightarrow> string \<Rightarrow> string \<Rightarrow> int \<Rightarrow> int \<Rightarrow> event list" where
  "load_events w sz project filepath p n =
     loop_events w ''load''
       (\<lambda>i. DistCpLoad (state_entries sz p (2 * (4 + nat p))) (checkpoint_path_of filepath i)
              (GCSDistributedReader filepath project))
       (7 + 6 * nat n) (py_range n)"

definition save_samples :: "world \<Rightarrow> int \<Rightarrow> real list" where
  "save_samples w n = loop_samples w 7 (py_range n)"

definition load_samples :: "world \<Rightarrow> int \<Rightarrow> real list" where
  "load_samples w n = loop_samples w (7 + 6 * nat n) (py_range n)"

definition final_trace ::
  "world \<Rightarrow> int \<Rightarrow> int \<Rightarrow> int \<Rightarrow> string \<Rightarrow> string \<Rightarrow> int \<Rightarrow> int \<Rightarrow> event list" where
  "final_trace w rank world_size sz project filepath p n =
     startup_events rank world_size project filepath
     @ save_events w sz project filepath p n
     @ load_events w sz project filepath p n
     @ (if rank = 0
        then report_events rank world_size (state_entries sz p 0)
               (save_samples w n) (load_samples w n)
        else [])
     @ [DestroyProcessGroup]"

text \<open>What a trace shows of the checkpoint operations: the state dict and the path given
  to each \<^verbatim>\<open>dist_cp.save\<close>, and to each \<^verbatim>\<open>dist_cp.load\<close>, in the order of the calls.\<close>

fun saved :: "event list \<Rightarrow> (tensor dict \<times> string) list" where
  "saved [] = []"
| "saved (DistCpSave d path wr # es) = (d, path) # saved es"
| "saved (e # es) = saved es"

fun loaded :: "event list \<Rightarrow> (tensor dict \<times> string) list" where
  "loaded [] = []"
| "loaded (DistCpLoad d path rd # es) = (d, path) # loaded es"
| "loaded (e # es) = loaded es"

text \<open>A world in which nothing raises and the clock shows the number of interactions
  so far.\<close>

definition calm_world :: world where
  "calm_world = \<lparr>raises = (\<lambda>k. None), clock = (\<lambda>k. real k), tensor_str = (\<lambda>t. ''tensor'')\<rparr>"

text \<open>The statistics a trace shows: the sizes printed and the times printed, each with its
  label, in order.\<close>

fun printed_sizes :: "event list \<Rightarrow> (string \<times> size_text) list" where
  "printed_sizes [] = []"
| "printed_sizes (PrintSize l z # es) = (l, z) # printed_sizes es"
| "printed_sizes (e # es) = printed_sizes es"

fun printed_seconds :: "event list \<Rightarrow> (string \<times> real) list" where
  "printed_seconds [] = []"
| "printed_seconds (PrintSeconds l x # es) = (l, x) # printed_seconds es"
| "printed_seconds (e # es) = printed_seconds es"

text \<open>A world in which nothing raises and the clock runs backwards.\<close>

definition rewinding_world :: world where
  "rewinding_world =
     \<lparr>raises = (\<lambda>k. None), clock = (\<lambda>k. - real k), tensor_str = (\<lambda>t. ''tensor'')\<rparr>"

text \<open>Every process in the calm world.\<close>

definition calm_worlds :: "nat \<Rightarrow> world" where
  "calm_worlds r = calm_world"


section \<open>Auxiliary facts\<close>

lemma digit_inj: "a < 10 \<Longrightarrow> b < 10 \<Longrightarrow> digit a = digit b \<Longrightarrow> a = b"
proof -
  assume a: "a < 10" and b: "b < 10" and e: "digit a = digit b"
  have d: "distinct ''0123456789''" by simp
  have "length ''0123456789'' = 10" by simp
  with a b e d show ?thesis
    unfolding digit_def by (metis nth_eq_iff_index_eq)
qed

lemma str_nat_nonempty: "str_nat n \<noteq> []"
  by (subst str_nat.simps) simp

lemma str_nat_inj: "str_nat n = str_nat m \<Longrightarrow> n = m"
proof (induction n arbitrary: m rule: str_nat.induct)
  case (1 n)
  show ?case
  proof (cases "n < 10")
    case True
    note n = this
    show ?thesis
    proof (cases "m < 10")
      case True
      with n 1(2) show ?thesis
        by (simp add: str_nat.simps [of n] str_nat.simps [of m] digit_inj)
    next
      case False
      with n 1(2) str_nat_nonempty [of "m div 10"] show ?thesis
        by (simp add: str_nat.simps [of n] str_nat.simps [of m])
    qed
  next
    case False
    note n = this
    show ?thesis
    proof (cases "m < 10")
      case True
      with n 1(2) str_nat_nonempty [of "n div 10"] show ?thesis
        by (simp add: str_nat.simps [of n] str_nat.simps [of m])
    next
      case False
      with n 1(2) have e: "str_nat (n div 10) = str_nat (m div 10)"
        and d: "digit (n mod 10) = digit (m mod 10)"
        by (simp_all add: str_nat.simps [of n] str_nat.simps [of m])
      from 1(1) [OF n e] have "n div 10 = m div 10" .
      moreover from d have "n mod 10 = m mod 10" by (simp add: digit_inj)
      ultimately show ?thesis by (metis div_mult_mod_eq)
    qed
  qed
qed

lemma dummy_name_inj: "dummy_name i = dummy_name j \<longleftrightarrow> i = j"
  by (auto simp: dummy_name_def dest: str_nat_inj)

lemma setitem_fresh: "k \<notin> fst ` set d \<Longrightarrow> setitem k v d = d @ [(k, v)]"
  by (induction d) auto

lemma fold_setitem_fresh:
  "\<forall>i \<in> fst ` set xs. dummy_name i \<notin> fst ` set d \<Longrightarrow> distinct (map fst xs) \<Longrightarrow>
   fold (\<lambda>(i, t) d. setitem (dummy_name i) t d) xs d = d @ map (\<lambda>(i, t). (dummy_name i, t)) xs"
proof (induction xs arbitrary: d)
  case Nil
  show ?case by simp
next
  case (Cons x xs)
  obtain i t where x: "x = (i, t)" by (cases x)
  from Cons.prems have fresh: "dummy_name i \<notin> fst ` set d" by (simp add: x)
  have "\<forall>j \<in> fst ` set xs. dummy_name j \<notin> fst ` set (d @ [(dummy_name i, t)])"
    using Cons.prems by (auto simp: x dummy_name_inj)
  moreover have "distinct (map fst xs)" using Cons.prems by simp
  ultimately show ?case
    using Cons.IH [of "d @ [(dummy_name i, t)]"] by (simp add: x setitem_fresh [OF fresh])
qed

subsection \<open>monad\<close>

lemma seq_return [simp]: "seq (return x) f s = f x s"
  by (simp add: seq_def return_def)

lemma seq_ok: "p s = (Inr x, s') \<Longrightarrow> seq p f s = f x s'"
  by (simp add: seq_def)

lemma seq_err: "p s = (Inl e, s') \<Longrightarrow> seq p f s = (Inl e, s')"
  by (simp add: seq_def)

lemma call_quiet: "quiet w \<Longrightarrow> call w ev s = (Inr (), s\<lparr>trace := trace s @ [ev]\<rparr>)"
  by (simp add: call_def quiet_def)

lemma time_quiet:
  "quiet w \<Longrightarrow> time_time w s = (Inr (clock w (length (trace s))), s\<lparr>trace := trace s @ [Time (clock w (length (trace s)))]\<rparr>)"
  by (simp add: time_time_def quiet_def Let_def)

lemma new_tensor_ok:
  "\<forall>n \<in> set sizes. 0 \<le> n \<Longrightarrow>
   new_tensor sizes s = (Inr (mk_tensor (map nat sizes) (next_storage s)),
                         s\<lparr>next_storage := Suc (next_storage s)\<rparr>)"
  by (auto simp: new_tensor_def mk_tensor_def)

lemma new_tensor_neg: "\<exists>n \<in> set sizes. n < 0 \<Longrightarrow> new_tensor sizes s = (Inl RuntimeError, s)"
  by (simp add: new_tensor_def)

lemma Linear_ok:
  "0 \<le> sz \<Longrightarrow> Linear sz sz s = (Inr (linear_module sz (next_storage s)),
                              s\<lparr>next_storage := next_storage s + 2\<rparr>)"
  by (simp add: Linear_def seq_def new_tensor_ok return_def linear_module_def)

lemma Linear_neg: "sz < 0 \<Longrightarrow> Linear sz sz s = (Inl RuntimeError, s)"
  by (simp add: Linear_def seq_def new_tensor_neg)

lemma padding_tensors_Suc:
  "padding_tensors sz (Suc n) a = mk_tensor [nat sz, nat sz] a # padding_tensors sz n (Suc a)"
  by (simp add: padding_tensors_def upt_conv_Cons map_Suc_upt [symmetric] del: upt_Suc)

lemma randn_list_ok:
  "0 \<le> sz \<Longrightarrow>
   randn_list sz xs s = (Inr (padding_tensors sz (length xs) (next_storage s)),
                         s\<lparr>next_storage := next_storage s + length xs\<rparr>)"
proof (induction xs arbitrary: s)
  case Nil
  show ?case by (simp add: return_def padding_tensors_def)
next
  case (Cons x xs)
  show ?case
    by (simp add: seq_def new_tensor_ok Cons.prems Cons.IH [OF Cons.prems] return_def
        padding_tensors_Suc)
qed

lemma SimpleModel_ok:
  "0 \<le> sz \<Longrightarrow>
   SimpleModel sz p s = (Inr (simple_model sz p (next_storage s)),
                         s\<lparr>next_storage := next_storage s + 4 + nat p\<rparr>)"
  by (simp add: SimpleModel_def seq_def Linear_ok randn_list_ok return_def simple_model_def
      py_range_def eval_nat_numeral)

lemma SimpleModel_neg: "sz < 0 \<Longrightarrow> SimpleModel sz p s = (Inl RuntimeError, s)"
  by (simp add: SimpleModel_def seq_def Linear_neg)

lemma state_dict_simple_model:
  "state_dict (net (simple_model sz p a)) =
     [(''fc1.weight'', mk_tensor [nat sz, nat sz] a),
      (''fc1.bias'', mk_tensor [nat sz] (a + 1)),
      (''fc2.weight'', mk_tensor [nat sz, nat sz] (a + 2)),
      (''fc2.bias'', mk_tensor [nat sz] (a + 3))]"
  by (simp add: simple_model_def state_dict_def linear_module_def eval_nat_numeral)

lemma dummy_name_not_param:
  "dummy_name i \<notin> fst ` set (state_dict (net (simple_model sz p a)))"
  by (simp add: state_dict_simple_model dummy_name_def)

lemma add_dummy_tensors_simple_model:
  "add_dummy_tensors (padding_tensors sz (nat p) (a + 4)) (state_dict (net (simple_model sz p a)))
   = state_entries sz p a"
  unfolding add_dummy_tensors_def
  by (subst fold_setitem_fresh)
     (auto simp: dummy_name_def state_entries_def state_dict_simple_model)


subsection \<open>template\<close>

lemma enumerate_padding_Suc:
  "enumerate m (padding_tensors sz (Suc n) a) =
     (m, mk_tensor [nat sz, nat sz] a) # enumerate (Suc m) (padding_tensors sz n (Suc a))"
  by (simp add: padding_tensors_Suc)

lemma empty_like_mk:
  "empty_like (mk_tensor sh a) s =
     (Inr (mk_tensor sh (next_storage s)), s\<lparr>next_storage := Suc (next_storage s)\<rparr>)"
  by (simp add: empty_like_def mk_tensor_def)

lemma dummy_templates_padding:
  "\<forall>i\<ge>m. dummy_name i \<notin> fst ` set d \<Longrightarrow>
   dummy_templates (enumerate m (padding_tensors sz n b)) d s =
     (Inr (d @ map (\<lambda>(i, t). (dummy_name i, t))
                 (enumerate m (padding_tensors sz n (next_storage s)))),
      s\<lparr>next_storage := next_storage s + n\<rparr>)"
proof (induction n arbitrary: m b d s)
  case 0
  show ?case by (simp add: padding_tensors_def return_def)
next
  case (Suc n)
  let ?e = "(dummy_name m, mk_tensor [nat sz, nat sz] (next_storage s))"
  from Suc.prems have fresh: "dummy_name m \<notin> fst ` set d" by simp
  have "\<forall>i\<ge>Suc m. dummy_name i \<notin> fst ` set (d @ [?e])"
    using Suc.prems by (auto simp: dummy_name_inj)
  from Suc.IH [OF this] show ?case
    by (simp add: enumerate_padding_Suc seq_def empty_like_mk setitem_fresh [OF fresh])
qed

lemma template_state_dict_simple_model:
  "template_state_dict (simple_model sz p a) s =
     (Inr (state_entries sz p (next_storage s)),
      s\<lparr>next_storage := next_storage s + 4 + nat p\<rparr>)"
proof -
  let ?d = "[(''fc1.weight'', mk_tensor [nat sz, nat sz] (next_storage s)),
      (''fc1.bias'', mk_tensor [nat sz] (next_storage s + 1)),
      (''fc2.weight'', mk_tensor [nat sz, nat sz] (next_storage s + 2)),
      (''fc2.bias'', mk_tensor [nat sz] (next_storage s + 3))]"
  have e: "empty_template (state_dict (net (simple_model sz p a)))
             (state_dict (net (simple_model sz p a))) s
           = (Inr ?d, s\<lparr>next_storage := next_storage s + 4\<rparr>)"
    by (simp add: state_dict_simple_model seq_def empty_like_mk return_def eval_nat_numeral)
  have f: "\<forall>i\<ge>0. dummy_name i \<notin> fst ` set ?d"
    by (simp add: dummy_name_def)
  have dt: "dummy_tensors (simple_model sz p a) = Some (padding_tensors sz (nat p) (a + 4))"
    by (simp add: simple_model_def)
  have g: "dummy_templates (enumerate 0 (padding_tensors sz (nat p) (a + 4))) ?d
             (s\<lparr>next_storage := next_storage s + 4\<rparr>)
           = (Inr (state_entries sz p (next_storage s)),
              s\<lparr>next_storage := next_storage s + 4 + nat p\<rparr>)"
    using dummy_templates_padding [OF f, of sz "nat p" "a + 4"
        "s\<lparr>next_storage := next_storage s + 4\<rparr>"]
    by (simp add: state_entries_def)
  have "template_state_dict (simple_model sz p a) s
        = dummy_templates (enumerate 0 (padding_tensors sz (nat p) (a + 4))) ?d
             (s\<lparr>next_storage := next_storage s + 4\<rparr>)"
    unfolding template_state_dict_def seq_def e dt by simp
  with g show ?thesis by simp
qed

subsection \<open>loop\<close>

lemma time_loop_quiet_save:
  assumes q: "quiet w"
  shows "time_loop w bs sd filepath ''save'' template xs (tms, s) =
     (Inr (), (tms @ loop_samples w (length (trace s)) xs,
               s\<lparr>trace := trace s @ loop_events w ''save''
                    (op_event bs sd template filepath ''save'') (length (trace s)) xs\<rparr>))"
proof (induction xs arbitrary: tms s)
  case Nil
  show ?case by (simp add: return_def)
next
  case (Cons i xs)
  show ?case
    by (simp add: seq_def lift_def call_quiet [OF q] time_quiet [OF q] times_append_def
        save_checkpoint_def Let_def iteration_events_def op_event_def
        Cons.IH eval_nat_numeral)
qed

lemma time_loop_quiet_load:
  assumes q: "quiet w"
  shows "time_loop w bs sd filepath ''load'' template xs (tms, s) =
     (Inr (), (tms @ loop_samples w (length (trace s)) xs,
               s\<lparr>trace := trace s @ loop_events w ''load''
                    (op_event bs sd template filepath ''load'') (length (trace s)) xs\<rparr>))"
proof (induction xs arbitrary: tms s)
  case Nil
  show ?case by (simp add: return_def)
next
  case (Cons i xs)
  show ?case
    by (simp add: seq_def lift_def call_quiet [OF q] time_quiet [OF q] times_append_def
        load_checkpoint_def Let_def iteration_events_def op_event_def
        Cons.IH eval_nat_numeral)
qed

lemma length_loop_samples [simp]: "length (loop_samples w k xs) = length xs"
  by (induction xs arbitrary: k) auto

lemma length_loop_events [simp]: "length (loop_events w operation opev k xs) = 6 * length xs"
  by (induction xs arbitrary: k) (auto simp: iteration_events_def)

lemma time_checkpoint_operation_save:
  assumes q: "quiet w"
  shows "time_checkpoint_operation w bs sd filepath n ''save'' (simple_model sz p a) s =
     (Inr (loop_samples w (length (trace s)) (py_range n)),
      s\<lparr>trace := trace s @ loop_events w ''save''
             (\<lambda>i. DistCpSave sd (checkpoint_path_of filepath i) (writer bs))
             (length (trace s)) (py_range n),
        next_storage := next_storage s + 4 + nat p\<rparr>)"
  by (simp add: time_checkpoint_operation_def seq_def template_state_dict_simple_model
      time_loop_quiet_save [OF q] op_event_def [abs_def])

lemma time_checkpoint_operation_load:
  assumes q: "quiet w"
  shows "time_checkpoint_operation w bs sd filepath n ''load'' (simple_model sz p a) s =
     (Inr (loop_samples w (length (trace s)) (py_range n)),
      s\<lparr>trace := trace s @ loop_events w ''load''
             (\<lambda>i. DistCpLoad (state_entries sz p (next_storage s))
                    (checkpoint_path_of filepath i) (reader bs))
             (length (trace s)) (py_range n),
        next_storage := next_storage s + 4 + nat p\<rparr>)"
  by (simp add: time_checkpoint_operation_def seq_def template_state_dict_simple_model
      time_loop_quiet_load [OF q] op_event_def [abs_def])

lemma report_quiet:
  assumes q: "quiet w" and "xs \<noteq> []" "ys \<noteq> []" "world_size \<noteq> 0"
  shows "report w rank world_size sd False xs ys s =
     (Inr (), s\<lparr>trace := trace s @ report_events rank world_size sd xs ys\<rparr>)"
  using assms(2-)
  by (simp add: report_def seq_def of_result_def statistics_mean_def call_quiet [OF q]
      return_def report_events_def)

lemma BenchmarkStrategy_quiet:
  assumes q: "quiet w"
  shows "BenchmarkStrategy w project path model s =
     (Inr \<lparr>writer = GCSDistributedWriter path project,
           reader = GCSDistributedReader path project, strategy_model = model\<rparr>,
      s\<lparr>trace := trace s @ [FSDPStrategyInit,
             NewStorageLayer (GCSDistributedWriter path project),
             NewStorageLayer (GCSDistributedReader path project)]\<rparr>)"
  by (simp add: BenchmarkStrategy_def seq_def call_quiet [OF q] return_def)

lemma setup_quiet:
  assumes q: "quiet w"
  shows "setup_process_group w rank world_size s =
     (Inr (), s\<lparr>trace := trace s @ [SetEnv ''MASTER_ADDR'' MASTER_ADDR,
        SetEnv ''MASTER_PORT'' MASTER_PORT, InitProcessGroup ''gloo'' rank world_size]\<rparr>)"
  by (simp add: setup_process_group_def seq_def call_quiet [OF q])

lemma run_benchmark_quiet:
  assumes q: "quiet w" and sz: "0 \<le> sz" and dbg: "\<not> (rank = 0 \<and> debug)"
    and n: "rank = 0 \<longrightarrow> 0 < n \<and> world_size \<noteq> 0"
  shows "run_benchmark w rank world_size sz project filepath p n debug init_st =
     (Inr (), \<lparr>trace = final_trace w rank world_size sz project filepath p n,
               next_storage = 3 * (4 + nat p)\<rparr>)"
proof -
  have dt: "dummy_tensors (simple_model sz p 0) = Some (padding_tensors sz (nat p) 4)"
    by (simp add: simple_model_def)
  have sd: "add_dummy_tensors (padding_tensors sz (nat p) 4)
              (state_dict (net (simple_model sz p 0))) = state_entries sz p 0"
    using add_dummy_tensors_simple_model [of sz p 0] by simp
  have ne: "loop_samples w k [0..<nat n] \<noteq> []" if "rank = 0" for k
  proof -
    have "length (loop_samples w k [0..<nat n]) = nat n" by simp
    moreover from n that have "0 < nat n" by simp
    ultimately show ?thesis by (metis length_greater_0_conv)
  qed
  have h1: "Suc (Suc (Suc (Suc (Suc (Suc (Suc 0)))))) = 7" by simp
  have h2: "Suc (Suc (Suc (Suc (Suc (Suc (Suc m)))))) = 7 + m" for m by simp
  have h3: "2 * nat p + 8 = 8 + 2 * nat p" by simp
  show ?thesis
  proof (cases "rank = 0")
    case True
    with n have ws: "world_size \<noteq> 0" by simp
    from True dbg have nd: "debug = False" by simp
    show ?thesis
      using True
      by (simp add: run_benchmark_def seq_def setup_quiet [OF q] init_st_def
        SimpleModel_ok [OF sz] nd
        return_def BenchmarkStrategy_quiet [OF q] dt sd call_quiet [OF q]
        time_checkpoint_operation_save [OF q] time_checkpoint_operation_load [OF q]
        report_quiet [OF q ne [OF True] ne [OF True] ws]
        cleanup_def final_trace_def startup_events_def save_events_def
        load_events_def save_samples_def load_samples_def py_range_def h1 h2 h3)
  next
    case False
    then show ?thesis
      by (simp add: run_benchmark_def seq_def setup_quiet [OF q] init_st_def
        SimpleModel_ok [OF sz]
        return_def BenchmarkStrategy_quiet [OF q] dt sd call_quiet [OF q]
        time_checkpoint_operation_save [OF q] time_checkpoint_operation_load [OF q]
        cleanup_def final_trace_def startup_events_def save_events_def
        load_events_def save_samples_def load_samples_def py_range_def h1 h2 h3)
  qed
qed

lemma saved_append [simp]: "saved (xs @ ys) = saved xs @ saved ys"
  by (induction xs rule: saved.induct) auto

lemma loaded_append [simp]: "loaded (xs @ ys) = loaded xs @ loaded ys"
  by (induction xs rule: loaded.induct) auto

lemma saved_loop_save:
  "saved (loop_events w operation (\<lambda>i. DistCpSave d (f i) wr) k xs) = map (\<lambda>i. (d, f i)) xs"
  by (induction xs arbitrary: k) (auto simp: iteration_events_def)

lemma saved_loop_load:
  "saved (loop_events w operation (\<lambda>i. DistCpLoad d (f i) rd) k xs) = []"
  by (induction xs arbitrary: k) (auto simp: iteration_events_def)

lemma loaded_loop_load:
  "loaded (loop_events w operation (\<lambda>i. DistCpLoad d (f i) rd) k xs) = map (\<lambda>i. (d, f i)) xs"
  by (induction xs arbitrary: k) (auto simp: iteration_events_def)

lemma loaded_loop_save:
  "loaded (loop_events w operation (\<lambda>i. DistCpSave d (f i) wr) k xs) = []"
  by (induction xs arbitrary: k) (auto simp: iteration_events_def)

lemma saved_final_trace:
  "saved (final_trace w rank world_size sz project filepath p n) =
     map (\<lambda>i. (state_entries sz p 0, checkpoint_path_of filepath i)) (py_range n)"
  by (simp add: final_trace_def startup_events_def save_events_def load_events_def
      report_events_def saved_loop_save saved_loop_load)

lemma loaded_final_trace:
  "loaded (final_trace w rank world_size sz project filepath p n) =
     map (\<lambda>i. (state_entries sz p (2 * (4 + nat p)), checkpoint_path_of filepath i)) (py_range n)"
  by (simp add: final_trace_def startup_events_def save_events_def load_events_def
      report_events_def loaded_loop_save loaded_loop_load)

lemma map_enumerate_nth:
  "map (\<lambda>(i, t). f i t) (enumerate 0 ts) = map (\<lambda>i. f i (ts ! i)) [0..<length ts]"
  by (rule nth_equalityI) (simp_all add: nth_enumerate_eq)

lemma length_padding_tensors [simp]: "length (padding_tensors sz n a) = n"
  by (simp add: padding_tensors_def)

lemma nth_padding_tensors [simp]:
  "i < n \<Longrightarrow> padding_tensors sz n a ! i = mk_tensor [nat sz, nat sz] (a + i)"
  by (simp add: padding_tensors_def)

lemma state_entries_split:
  "state_entries sz p a = state_dict (net (simple_model sz p a))
     @ map (\<lambda>i. (''dummy_tensor_'' @ str_nat i, padding_tensors sz (nat p) (a + 4) ! i)) [0..<nat p]"
  by (simp add: state_entries_def state_dict_simple_model map_enumerate_nth dummy_name_def)

lemma keys_state_entries:
  "keys (state_entries sz p a) =
     [''fc1.weight'', ''fc1.bias'', ''fc2.weight'', ''fc2.bias'']
     @ map dummy_name [0..<nat p]"
  by (simp add: state_entries_def keys_def map_enumerate_nth)

lemma distinct_keys_state_entries: "distinct (keys (state_entries sz p a))"
  by (auto simp: keys_state_entries distinct_map inj_on_def dummy_name_def dest: str_nat_inj)

lemma shapes_of_state_entries:
  "shapes_of (state_entries sz p a) = shapes_of (state_entries sz p b)"
  by (simp add: state_entries_def shapes_of_def map_enumerate_nth mk_tensor_def)

section \<open>The claims\<close>

text \<open>
  C1. For a layer size \<open>s\<close> and a padding size \<open>p\<close>, the state mapping handed to every save
  is the model's parameter state dict (weight and bias of \<open>fc1\<close> and of \<open>fc2\<close>) followed by
  exactly \<open>p\<close> further entries \<^verbatim>\<open>dummy_tensor_0\<close> to \<^verbatim>\<open>dummy_tensor_{p-1}\<close> (none when
  \<open>p \<le> 0\<close>), entry \<open>i\<close> being the model's \<open>i\<close>-th padding tensor, of shape \<open>s \<times> s\<close>; all
  keys are distinct. The run is one whose interactions return; a negative \<open>s\<close> makes the
  construction of the model raise.
\<close>

theorem state_mapping_passed_to_save:
  assumes "quiet w" and "0 \<le> s" and "\<not> (rank = 0 \<and> debug)"
    and "rank = 0 \<longrightarrow> 0 < n \<and> world_size \<noteq> 0"
  shows "\<exists>model ts s'.
    SimpleModel s p init_st = (Inr model, s') \<and> dummy_tensors model = Some ts \<and>
    keys (state_dict (net model)) = [''fc1.weight'', ''fc1.bias'', ''fc2.weight'', ''fc2.bias''] \<and>
    map (shape \<circ> snd) (state_dict (net model)) = [[nat s, nat s], [nat s], [nat s, nat s], [nat s]] \<and>
    length ts = nat p \<and> (\<forall>i<nat p. shape (ts ! i) = [nat s, nat s]) \<and>
    map fst (saved (trace (snd (run_benchmark w rank world_size s project filepath p n debug init_st))))
      = replicate (nat n)
          (state_dict (net model)
           @ map (\<lambda>i. (''dummy_tensor_'' @ str_nat i, ts ! i)) [0..<nat p]) \<and>
    distinct (keys (state_dict (net model)
           @ map (\<lambda>i. (''dummy_tensor_'' @ str_nat i, ts ! i)) [0..<nat p]))"
proof -
  let ?model = "simple_model s p 0" and ?ts = "padding_tensors s (nat p) 4"
  have m: "SimpleModel s p init_st = (Inr ?model, init_st\<lparr>next_storage := 4 + nat p\<rparr>)"
    using SimpleModel_ok [OF assms(2), of p init_st] by (simp add: init_st_def)
  have se: "state_entries s p 0 = state_dict (net ?model)
     @ map (\<lambda>i. (''dummy_tensor_'' @ str_nat i, ?ts ! i)) [0..<nat p]"
    using state_entries_split [of s p 0] by simp
  have tr: "map fst (saved (trace (snd (run_benchmark w rank world_size s project filepath p n debug init_st))))
      = replicate (nat n) (state_entries s p 0)"
    by (simp add: run_benchmark_quiet [OF assms] saved_final_trace py_range_def comp_def
        map_replicate_const)
  have d: "distinct (keys (state_dict (net ?model)
           @ map (\<lambda>i. (''dummy_tensor_'' @ str_nat i, ?ts ! i)) [0..<nat p]))"
    using distinct_keys_state_entries [of s p 0] unfolding se .
  have tr': "map fst (saved (trace (snd (run_benchmark w rank world_size s project filepath p n debug init_st))))
      = replicate (nat n) (state_dict (net ?model)
           @ map (\<lambda>i. (''dummy_tensor_'' @ str_nat i, ?ts ! i)) [0..<nat p])"
    using tr unfolding se .
  have dt: "dummy_tensors ?model = Some ?ts" by (simp add: simple_model_def)
  have k: "keys (state_dict (net ?model)) = [''fc1.weight'', ''fc1.bias'', ''fc2.weight'', ''fc2.bias'']"
    by (simp add: state_dict_simple_model keys_def)
  have sh: "map (shape \<circ> snd) (state_dict (net ?model)) = [[nat s, nat s], [nat s], [nat s, nat s], [nat s]]"
    by (simp add: state_dict_simple_model mk_tensor_def)
  have l: "length ?ts = nat p" by simp
  have shp: "\<forall>i<nat p. shape (?ts ! i) = [nat s, nat s]" by (simp add: mk_tensor_def)
  show ?thesis
    by (rule exI [of _ ?model], rule exI [of _ ?ts],
        rule exI [of _ "init_st\<lparr>next_storage := 4 + nat p\<rparr>"])
       (intro conjI m dt k sh l shp tr' d)
qed

theorem state_mapping_passed_to_save_witness:
  "quiet calm_world \<and> (0::int) \<le> 2 \<and>
   (\<exists>model ts s'.
    SimpleModel 2 3 init_st = (Inr model, s') \<and> dummy_tensors model = Some ts \<and>
    keys (state_dict (net model)) = [''fc1.weight'', ''fc1.bias'', ''fc2.weight'', ''fc2.bias''] \<and>
    map (shape \<circ> snd) (state_dict (net model)) = [[2, 2], [2], [2, 2], [2]] \<and>
    length ts = 3 \<and> shape (ts ! 0) = [2, 2] \<and>
    map fst (saved (trace (snd (run_benchmark calm_world 0 1 2 ''proj'' ''gs://b'' 3 2 False init_st))))
      = replicate 2
          (state_dict (net model)
           @ map (\<lambda>i. (''dummy_tensor_'' @ str_nat i, ts ! i)) [0..<3]))"
proof -
  have q: "quiet calm_world" by (simp add: quiet_def calm_world_def)
  have s: "(0::int) \<le> 2" by simp
  have d: "\<not> ((0::int) = 0 \<and> False)" by simp
  have n: "(0::int) = 0 \<longrightarrow> (0::int) < 2 \<and> (1::int) \<noteq> 0" by simp
  from state_mapping_passed_to_save [OF q s d n, where project = "''proj''"
      and filepath = "''gs://b''" and p = 3]
  obtain model ts s' where
    a1: "SimpleModel 2 3 init_st = (Inr model, s')" and a2: "dummy_tensors model = Some ts"
    and a3: "keys (state_dict (net model)) = [''fc1.weight'', ''fc1.bias'', ''fc2.weight'', ''fc2.bias'']"
    and a4: "map (shape \<circ> snd) (state_dict (net model)) = [[2, 2], [2], [2, 2], [2]]"
    and a5: "length ts = 3" and a6: "\<forall>i<3. shape (ts ! i) = [2, 2]"
    and a7: "map fst (saved (trace (snd (run_benchmark calm_world 0 1 2 ''proj'' ''gs://b'' 3 2 False init_st))))
      = replicate 2
          (state_dict (net model)
           @ map (\<lambda>i. (''dummy_tensor_'' @ str_nat i, ts ! i)) [0..<3])"
    by auto
  from a6 have a8: "shape (ts ! 0) = [2, 2]" by simp
  show ?thesis
    apply (intro conjI q s)
    apply (rule exI [of _ model], rule exI [of _ ts], rule exI [of _ s'])
    apply (intro conjI a1 a2 a3 a4 a5 a8 a7)
    done
qed

lemma map_of_shapes_of: "map_of (shapes_of d) k = map_option shape (getitem d k)"
  by (induction d) (auto simp: shapes_of_def getitem_def)

lemma keys_shapes_of: "map fst (shapes_of d) = keys d"
  by (simp add: shapes_of_def keys_def comp_def case_prod_beta)

lemma same_shapes_same_keys: "shapes_of d' = shapes_of d \<Longrightarrow> keys d' = keys d"
  by (metis keys_shapes_of)

lemma same_shapes_same_lookup:
  "shapes_of d' = shapes_of d \<Longrightarrow> map_option shape (getitem d' k) = map_option shape (getitem d k)"
  by (metis map_of_shapes_of)

text \<open>
  C2. In a run whose interactions return, the template state dict given to each load has
  the same keys, in the same order, as the state mapping given to each save (the four
  parameter keys and the \<^verbatim>\<open>dummy_tensor_i\<close> keys), and under every key a tensor of the
  same shape; there are as many loads, and saves, as samples.
\<close>

theorem template_matches_saved_state:
  assumes "quiet w" and "0 \<le> s" and "\<not> (rank = 0 \<and> debug)"
    and "rank = 0 \<longrightarrow> 0 < n \<and> world_size \<noteq> 0"
  shows "length (saved (trace (snd (run_benchmark w rank world_size s project filepath p n debug init_st)))) = nat n
    \<and> length (loaded (trace (snd (run_benchmark w rank world_size s project filepath p n debug init_st)))) = nat n
    \<and> (\<forall>d \<in> fst ` set (saved (trace (snd (run_benchmark w rank world_size s project filepath p n debug init_st)))).
        \<forall>d' \<in> fst ` set (loaded (trace (snd (run_benchmark w rank world_size s project filepath p n debug init_st)))).
          keys d' = keys d
          \<and> keys d = [''fc1.weight'', ''fc1.bias'', ''fc2.weight'', ''fc2.bias'']
                       @ map (\<lambda>i. ''dummy_tensor_'' @ str_nat i) [0..<nat p]
          \<and> (\<forall>k. map_option shape (getitem d' k) = map_option shape (getitem d k)))"
proof -
  let ?tr = "trace (snd (run_benchmark w rank world_size s project filepath p n debug init_st))"
  have tr: "?tr = final_trace w rank world_size s project filepath p n"
    by (simp add: run_benchmark_quiet [OF assms])
  have sv: "saved ?tr = map (\<lambda>i. (state_entries s p 0, checkpoint_path_of filepath i)) (py_range n)"
    unfolding tr by (rule saved_final_trace)
  have ld: "loaded ?tr = map (\<lambda>i. (state_entries s p (2 * (4 + nat p)), checkpoint_path_of filepath i)) (py_range n)"
    unfolding tr by (rule loaded_final_trace)
  have sh: "shapes_of (state_entries s p (2 * (4 + nat p))) = shapes_of (state_entries s p 0)"
    by (rule shapes_of_state_entries)
  have k: "keys (state_entries s p 0) = [''fc1.weight'', ''fc1.bias'', ''fc2.weight'', ''fc2.bias'']
                       @ map (\<lambda>i. ''dummy_tensor_'' @ str_nat i) [0..<nat p]"
    by (simp add: keys_state_entries dummy_name_def [abs_def])
  have "length (saved ?tr) = nat n" "length (loaded ?tr) = nat n"
    by (simp_all add: sv ld py_range_def)
  moreover have "\<forall>d \<in> fst ` set (saved ?tr). d = state_entries s p 0"
    by (auto simp: sv)
  moreover have "\<forall>d' \<in> fst ` set (loaded ?tr). d' = state_entries s p (2 * (4 + nat p))"
    by (auto simp: ld)
  ultimately show ?thesis
    using same_shapes_same_keys [OF sh] same_shapes_same_lookup [OF sh] k by auto
qed

text \<open>
  C3. In a run whose interactions return, for every sample index \<open>i\<close> below the sample
  count the \<open>i\<close>-th load reads the path \<^verbatim>\<open>os.path.join(filepath, 'checkpoints/ckpt_i.ckpt')\<close>,
  the very path the \<open>i\<close>-th save wrote, whatever the rank; for a \<open>filepath\<close> that is not empty
  and does not end in a slash this is \<^verbatim>\<open>filepath/checkpoints/ckpt_i.ckpt\<close>.
\<close>

theorem load_reads_path_of_save:
  assumes "quiet w" and "0 \<le> s" and "\<not> (rank = 0 \<and> debug)"
    and "rank = 0 \<longrightarrow> 0 < n \<and> world_size \<noteq> 0"
  shows "length (saved (trace (snd (run_benchmark w rank world_size s project filepath p n debug init_st)))) = nat n
    \<and> length (loaded (trace (snd (run_benchmark w rank world_size s project filepath p n debug init_st)))) = nat n
    \<and> (\<forall>i<nat n.
          snd (loaded (trace (snd (run_benchmark w rank world_size s project filepath p n debug init_st))) ! i)
            = os_path_join filepath (''checkpoints/ckpt_'' @ str_nat i @ ''.ckpt'')
        \<and> snd (saved (trace (snd (run_benchmark w rank world_size s project filepath p n debug init_st))) ! i)
            = snd (loaded (trace (snd (run_benchmark w rank world_size s project filepath p n debug init_st))) ! i)
        \<and> (filepath \<noteq> [] \<and> last filepath \<noteq> CHR ''/'' \<longrightarrow>
             os_path_join filepath (''checkpoints/ckpt_'' @ str_nat i @ ''.ckpt'')
               = filepath @ ''/checkpoints/ckpt_'' @ str_nat i @ ''.ckpt''))"
proof -
  let ?tr = "trace (snd (run_benchmark w rank world_size s project filepath p n debug init_st))"
  have tr: "?tr = final_trace w rank world_size s project filepath p n"
    by (simp add: run_benchmark_quiet [OF assms])
  have sv: "saved ?tr = map (\<lambda>i. (state_entries s p 0, checkpoint_path_of filepath i)) [0..<nat n]"
    unfolding tr by (simp add: saved_final_trace py_range_def)
  have ld: "loaded ?tr = map (\<lambda>i. (state_entries s p (2 * (4 + nat p)), checkpoint_path_of filepath i)) [0..<nat n]"
    unfolding tr by (simp add: loaded_final_trace py_range_def)
  show ?thesis
    unfolding sv ld by (simp add: checkpoint_path_of_def os_path_join_def)
qed

theorem load_reads_path_of_save_witness:
  "quiet calm_world \<and> (0::int) \<le> 2 \<and>
   length (saved (trace (snd (run_benchmark calm_world 0 1 2 ''proj'' ''gs://b'' 3 2 False init_st)))) = 2 \<and>
   snd (loaded (trace (snd (run_benchmark calm_world 0 1 2 ''proj'' ''gs://b'' 3 2 False init_st))) ! 1)
     = ''gs://b/checkpoints/ckpt_1.ckpt'' \<and>
   snd (saved (trace (snd (run_benchmark calm_world 0 1 2 ''proj'' ''gs://b'' 3 2 False init_st))) ! 1)
     = ''gs://b/checkpoints/ckpt_1.ckpt''"
proof -
  have q: "quiet calm_world" by (simp add: quiet_def calm_world_def)
  have s: "(0::int) \<le> 2" by simp
  have d: "\<not> ((0::int) = 0 \<and> False)" by simp
  have n: "(0::int) = 0 \<longrightarrow> (0::int) < 2 \<and> (1::int) \<noteq> 0" by simp
  have one: "str_nat (Suc 0) = ''1''" by (simp add: str_nat.simps digit_def)
  let ?tr = "trace (snd (run_benchmark calm_world 0 1 2 ''proj'' ''gs://b'' 3 2 False init_st))"
  note t = load_reads_path_of_save [OF q s d n, where project = "''proj''"
      and filepath = "''gs://b''" and p = 3]
  from t have l: "length (saved ?tr) = 2" by simp
  have "snd (loaded ?tr ! 1) = os_path_join ''gs://b'' (''checkpoints/ckpt_'' @ str_nat 1 @ ''.ckpt'')
      \<and> snd (saved ?tr ! 1) = snd (loaded ?tr ! 1)"
    using t [THEN conjunct2, THEN conjunct2, THEN spec, of 1] by simp
  then have "snd (loaded ?tr ! 1) = ''gs://b/checkpoints/ckpt_1.ckpt''"
    and "snd (saved ?tr ! 1) = ''gs://b/checkpoints/ckpt_1.ckpt''"
    by (simp_all add: one os_path_join_def)
  with q s l show ?thesis by simp
qed

theorem template_matches_saved_state_witness:
  "quiet calm_world \<and> (0::int) \<le> 2 \<and>
   length (loaded (trace (snd (run_benchmark calm_world 0 1 2 ''proj'' ''gs://b'' 3 2 False init_st)))) = 2 \<and>
   keys (fst (loaded (trace (snd (run_benchmark calm_world 0 1 2 ''proj'' ''gs://b'' 3 2 False init_st))) ! 0))
     = keys (fst (saved (trace (snd (run_benchmark calm_world 0 1 2 ''proj'' ''gs://b'' 3 2 False init_st))) ! 1)) \<and>
   map_option shape (getitem (fst (loaded (trace (snd (run_benchmark calm_world 0 1 2 ''proj'' ''gs://b'' 3 2 False init_st))) ! 0)) ''dummy_tensor_2'')
     = map_option shape (getitem (fst (saved (trace (snd (run_benchmark calm_world 0 1 2 ''proj'' ''gs://b'' 3 2 False init_st))) ! 1)) ''dummy_tensor_2'')"
proof -
  let ?tr = "trace (snd (run_benchmark calm_world 0 1 2 ''proj'' ''gs://b'' 3 2 False init_st))"
  have q: "quiet calm_world" by (simp add: quiet_def calm_world_def)
  have s: "(0::int) \<le> 2" by simp
  have d: "\<not> ((0::int) = 0 \<and> False)" by simp
  have n: "(0::int) = 0 \<longrightarrow> (0::int) < 2 \<and> (1::int) \<noteq> 0" by simp
  note t = template_matches_saved_state [OF q s d n, where project = "''proj''"
      and filepath = "''gs://b''" and p = 3]
  from t have ls: "length (saved ?tr) = 2" and ll: "length (loaded ?tr) = 2" by simp_all
  from ls have ms: "fst (saved ?tr ! 1) \<in> fst ` set (saved ?tr)" by simp
  from ll have ml: "fst (loaded ?tr ! 0) \<in> fst ` set (loaded ?tr)" by simp
  from t ms ml have "keys (fst (loaded ?tr ! 0)) = keys (fst (saved ?tr ! 1))"
    and "map_option shape (getitem (fst (loaded ?tr ! 0)) ''dummy_tensor_2'')
       = map_option shape (getitem (fst (saved ?tr ! 1)) ''dummy_tensor_2'')"
    by blast+
  with q s ll show ?thesis by simp
qed

lemma write_parameters_ok: "fst (write_parameters w TextIO indent ps buf) = Inr ()"
  by (induction ps arbitrary: buf) (auto simp: return_def seq_def file_write_def)

lemma swapped_call_fails:
  "write_model_structure_to_file w (ModuleObj c) TextIO indent buf = (Inl AttributeError, buf)"
  by simp

lemma write_children_result:
  "fst (write_children w TextIO cs indent buf) =
     (if \<forall>c \<in> snd ` set cs. children c = [] then Inr () else Inl AttributeError)"
proof (induction cs arbitrary: buf)
  case Nil
  show ?case by simp
next
  case (Cons x cs)
  obtain name c where x: "x = (name, c)" by (cases x)
  have np: "write_parameters w TextIO indent ps b \<noteq> (Inl e, b')" for ps b e b'
    using write_parameters_ok [of w indent ps b] by auto
  show ?case
    by (auto simp: x file_write_def seq_def Cons.IH np split: prod.splits sum.splits)
qed

text \<open>
  C10. Called with the file and a module, \<^verbatim>\<open>write_model_structure_to_file\<close> completes
  without error exactly when every direct child of the module is a leaf, as the children
  of \<^verbatim>\<open>SimpleModel\<close> are; with a child that has children of its own it ends in an
  AttributeError, because the recursive call hands the child over as \<open>file\<close> and the file
  as \<open>model\<close>, and that call raises at once whatever the child.
\<close>

theorem write_model_structure_leaf_children:
  "(fst (write_model_structure_to_file w TextIO (ModuleObj m) indent buf) = Inr ()
      \<longleftrightarrow> (\<forall>c \<in> set (children m). children c = []))
   \<and> ((\<exists>c \<in> set (children m). children c \<noteq> []) \<longrightarrow>
        fst (write_model_structure_to_file w TextIO (ModuleObj m) indent buf) = Inl AttributeError)
   \<and> write_model_structure_to_file w (ModuleObj c) TextIO indent' buf' = (Inl AttributeError, buf')
   \<and> (0 \<le> sz \<longrightarrow>
        (\<exists>model s'. SimpleModel sz p s = (Inr model, s')
           \<and> (\<forall>c \<in> set (children (net model)). children c = [])
           \<and> fst (write_model_structure_to_file w TextIO (ModuleObj (net model)) indent buf) = Inr ()))"
proof -
  have r: "fst (write_model_structure_to_file w TextIO (ModuleObj m') indent buf) =
     (if \<forall>c \<in> set (children m'). children c = [] then Inr () else Inl AttributeError)" for m'
    using write_children_result [of w "named_children m'" indent buf]
    by (simp add: children_def)
  have leaf: "\<forall>c \<in> set (children (net (simple_model sz p a))). children c = []" for a
    by (simp add: simple_model_def children_def linear_module_def)
  have sm: "0 \<le> sz \<longrightarrow>
        (\<exists>model s'. SimpleModel sz p s = (Inr model, s')
           \<and> (\<forall>c \<in> set (children (net model)). children c = [])
           \<and> fst (write_model_structure_to_file w TextIO (ModuleObj (net model)) indent buf) = Inr ())"
    using leaf [of "next_storage s"] r [of "net (simple_model sz p (next_storage s))"]
    by (auto simp: SimpleModel_ok)
  show ?thesis
    using r [of m] sm swapped_call_fails [of w c indent' buf'] by auto
qed

theorem write_model_structure_leaf_children_witness:
  "fst (write_model_structure_to_file calm_world TextIO
          (ModuleObj (Module ''M'' [] [(''a'', Module ''L'' [] [])])) [] []) = Inr ()
   \<and> fst (write_model_structure_to_file calm_world TextIO
          (ModuleObj (Module ''M'' [] [(''a'', Module ''L'' [] [(''b'', Module ''K'' [] [])])])) [] [])
       = Inl AttributeError"
proof -
  have "\<forall>c \<in> set (children (Module ''M'' [] [(''a'', Module ''L'' [] [])])). children c = []"
    by (simp add: children_def)
  with write_model_structure_leaf_children [of calm_world "Module ''M'' [] [(''a'', Module ''L'' [] [])]" "[]" "[]"]
  have a: "fst (write_model_structure_to_file calm_world TextIO
          (ModuleObj (Module ''M'' [] [(''a'', Module ''L'' [] [])])) [] []) = Inr ()"
    by blast
  have "\<exists>c \<in> set (children (Module ''M'' [] [(''a'', Module ''L'' [] [(''b'', Module ''K'' [] [])])])). children c \<noteq> []"
    by (simp add: children_def)
  with write_model_structure_leaf_children [of calm_world
      "Module ''M'' [] [(''a'', Module ''L'' [] [(''b'', Module ''K'' [] [])])]" "[]" "[]"]
  have b: "fst (write_model_structure_to_file calm_world TextIO
          (ModuleObj (Module ''M'' [] [(''a'', Module ''L'' [] [(''b'', Module ''K'' [] [])])])) [] [])
       = Inl AttributeError"
    by blast
  from a b show ?thesis by (rule conjI)
qed

text \<open>
  C4 (the code's side). \<^verbatim>\<open>main\<close> never reads \<^verbatim>\<open>args.clear_kernel_cache\<close>: whatever the
  flag, every process runs the same benchmark.
\<close>

theorem main_ignores_clear_kernel_cache:
  "main worlds (Inr (args\<lparr>arg_clear_kernel_cache := b\<rparr>)) = main worlds (Inr args)"
  by (simp add: main_def)

lemma empty_template_total:
  "\<exists>d' s1. empty_template items d s = (Inr d', s1) \<and> trace s1 = trace s"
proof (induction items arbitrary: d s)
  case Nil
  show ?case by (simp add: return_def)
next
  case (Cons x items)
  obtain k t where x: "x = (k, t)" by (cases x)
  let ?e = "\<lparr>shape = shape t, element_size = element_size t, storage = next_storage s\<rparr>"
  from Cons.IH [of "setitem k ?e d" "s\<lparr>next_storage := Suc (next_storage s)\<rparr>"]
  show ?case by (simp add: x seq_def empty_like_def)
qed

lemma dummy_templates_total:
  "\<exists>d' s1. dummy_templates items d s = (Inr d', s1) \<and> trace s1 = trace s"
proof (induction items arbitrary: d s)
  case Nil
  show ?case by (simp add: return_def)
next
  case (Cons x items)
  obtain k t where x: "x = (k, t)" by (cases x)
  let ?e = "\<lparr>shape = shape t, element_size = element_size t, storage = next_storage s\<rparr>"
  from Cons.IH [of "setitem (dummy_name k) ?e d" "s\<lparr>next_storage := Suc (next_storage s)\<rparr>"]
  show ?case by (simp add: x seq_def empty_like_def)
qed

lemma template_state_dict_total:
  "\<exists>template s1. template_state_dict model s = (Inr template, s1) \<and> trace s1 = trace s"
proof -
  obtain d s1 where e: "empty_template (state_dict (net model)) (state_dict (net model)) s = (Inr d, s1)"
    and t1: "trace s1 = trace s"
    using empty_template_total by blast
  show ?thesis
  proof (cases "dummy_tensors model")
    case None
    then show ?thesis by (simp add: template_state_dict_def seq_def e return_def t1)
  next
    case (Some ts)
    obtain d' s2 where "dummy_templates (enumerate 0 ts) d s1 = (Inr d', s2)" "trace s2 = trace s1"
      using dummy_templates_total by blast
    then show ?thesis by (simp add: template_state_dict_def seq_def e Some t1)
  qed
qed

lemma loop_events_from:
  "loop_events w operation opev k [a..<a + n] =
     concat (map (\<lambda>i. iteration_events w operation (opev i) (k + 6 * (i - a)) i) [a..<a + n])"
proof (induction n arbitrary: a k)
  case 0
  show ?case by simp
next
  case (Suc n)
  have u: "[a..<Suc (a + n)] = a # [Suc a..<Suc (a + n)]" by (simp add: upt_conv_Cons)
  have ih: "loop_events w operation opev (k + 6) [Suc a..<Suc (a + n)] =
     concat (map (\<lambda>i. iteration_events w operation (opev i) (k + 6 + 6 * (i - Suc a)) i)
               [Suc a..<Suc (a + n)])"
    using Suc.IH [of "k + 6" "Suc a"] by (simp del: upt_Suc)
  have c: "map (\<lambda>i. iteration_events w operation (opev i) (k + 6 + 6 * (i - Suc a)) i) [Suc a..<Suc (a + n)]
         = map (\<lambda>i. iteration_events w operation (opev i) (k + 6 * (i - a)) i) [Suc a..<Suc (a + n)]"
    by (rule map_cong) (auto simp: algebra_simps Suc_diff_le)
  have "loop_events w operation opev k (a # [Suc a..<Suc (a + n)]) =
     concat (map (\<lambda>i. iteration_events w operation (opev i) (k + 6 * (i - a)) i)
               (a # [Suc a..<Suc (a + n)]))"
    by (simp add: ih c del: upt_Suc)
  then show ?case by (simp only: add_Suc_right u)
qed

lemma loop_events_upt:
  "loop_events w operation opev k [0..<n] =
     concat (map (\<lambda>i. iteration_events w operation (opev i) (k + 6 * i) i) [0..<n])"
  using loop_events_from [of w operation opev k 0 n] by simp

lemma loop_samples_from:
  "loop_samples w k [a..<a + n] =
     map (\<lambda>i. clock w (k + 6 * (i - a) + 4) - clock w (k + 6 * (i - a) + 1)) [a..<a + n]"
proof (induction n arbitrary: a k)
  case 0
  show ?case by simp
next
  case (Suc n)
  have u: "[a..<Suc (a + n)] = a # [Suc a..<Suc (a + n)]" by (simp add: upt_conv_Cons)
  have ih: "loop_samples w (k + 6) [Suc a..<Suc (a + n)] =
     map (\<lambda>i. clock w (k + 6 + 6 * (i - Suc a) + 4) - clock w (k + 6 + 6 * (i - Suc a) + 1))
       [Suc a..<Suc (a + n)]"
    using Suc.IH [of "k + 6" "Suc a"] by (simp del: upt_Suc)
  have c: "map (\<lambda>i. clock w (k + 6 + 6 * (i - Suc a) + 4) - clock w (k + 6 + 6 * (i - Suc a) + 1)) [Suc a..<Suc (a + n)]
         = map (\<lambda>i. clock w (k + 6 * (i - a) + 4) - clock w (k + 6 * (i - a) + 1)) [Suc a..<Suc (a + n)]"
    by (rule map_cong) (auto simp: algebra_simps Suc_diff_le)
  have "loop_samples w k (a # [Suc a..<Suc (a + n)]) =
     map (\<lambda>i. clock w (k + 6 * (i - a) + 4) - clock w (k + 6 * (i - a) + 1))
       (a # [Suc a..<Suc (a + n)])"
    apply (simp only: loop_samples.simps list.map ih c)
    apply simp
    done
  then show ?case by (simp only: add_Suc_right u)
qed

lemma loop_samples_upt:
  "loop_samples w k [0..<n] = map (\<lambda>i. clock w (k + 6 * i + 4) - clock w (k + 6 * i + 1)) [0..<n]"
  using loop_samples_from [of w k 0 n] by simp

lemma time_checkpoint_operation_quiet:
  assumes "quiet w" and "operation = ''save'' \<or> operation = ''load''"
  shows "\<exists>template s1. template_state_dict model s = (Inr template, s1) \<and>
    time_checkpoint_operation w bs sd filepath n operation model s =
      (Inr (map (\<lambda>i. clock w (length (trace s) + 6 * i + 4) - clock w (length (trace s) + 6 * i + 1))
              [0..<nat n]),
       s1\<lparr>trace := trace s @ concat (map (\<lambda>i.
          [Barrier,
           Time (clock w (length (trace s) + 6 * i + 1)),
           (if operation = ''save''
            then DistCpSave sd (checkpoint_path_of filepath i) (writer bs)
            else DistCpLoad template (checkpoint_path_of filepath i) (reader bs)),
           Barrier,
           Time (clock w (length (trace s) + 6 * i + 4)),
           Print (''Completed iteration '' @ str_nat i @ '' for '' @ operation @ '' ...'')])
          [0..<nat n])\<rparr>)"
proof -
  obtain template s1 where t: "template_state_dict model s = (Inr template, s1)"
    and t1: "trace s1 = trace s"
    using template_state_dict_total by blast
  have "time_checkpoint_operation w bs sd filepath n operation model s =
      (Inr (map (\<lambda>i. clock w (length (trace s) + 6 * i + 4) - clock w (length (trace s) + 6 * i + 1))
              [0..<nat n]),
       s1\<lparr>trace := trace s @ concat (map (\<lambda>i.
          [Barrier,
           Time (clock w (length (trace s) + 6 * i + 1)),
           (if operation = ''save''
            then DistCpSave sd (checkpoint_path_of filepath i) (writer bs)
            else DistCpLoad template (checkpoint_path_of filepath i) (reader bs)),
           Barrier,
           Time (clock w (length (trace s) + 6 * i + 4)),
           Print (''Completed iteration '' @ str_nat i @ '' for '' @ operation @ '' ...'')])
          [0..<nat n])\<rparr>)"
    using assms(2)
  proof
    assume "operation = ''save''"
    then show ?thesis
      by (simp add: time_checkpoint_operation_def seq_def t time_loop_quiet_save [OF assms(1)]
          t1 py_range_def loop_events_upt loop_samples_upt iteration_events_def op_event_def
          add.assoc)
  next
    assume "operation = ''load''"
    then show ?thesis
      by (simp add: time_checkpoint_operation_def seq_def t time_loop_quiet_load [OF assms(1)]
          t1 py_range_def loop_events_upt loop_samples_upt iteration_events_def op_event_def
          add.assoc)
  qed
  with t show ?thesis by blast
qed

text \<open>
  C5. When no interaction raises, \<^verbatim>\<open>time_checkpoint_operation\<close> for \<^verbatim>\<open>'save'\<close> and for
  \<^verbatim>\<open>'load'\<close> issues, in every iteration \<open>i\<close> and in this order: a barrier, the reading of the
  start time, the one checkpoint operation, a barrier, the reading of the end time, the
  progress line; nothing else. The sample of iteration \<open>i\<close> is the second reading minus the
  first.
\<close>

theorem barriers_around_each_operation:
  assumes "quiet w" and "operation = ''save'' \<or> operation = ''load''"
  shows "\<exists>template s1. template_state_dict model s = (Inr template, s1) \<and>
    time_checkpoint_operation w bs sd filepath n operation model s =
      (Inr (map (\<lambda>i. clock w (length (trace s) + 6 * i + 4) - clock w (length (trace s) + 6 * i + 1))
              [0..<nat n]),
       s1\<lparr>trace := trace s @ concat (map (\<lambda>i.
          [Barrier,
           Time (clock w (length (trace s) + 6 * i + 1)),
           (if operation = ''save''
            then DistCpSave sd (checkpoint_path_of filepath i) (writer bs)
            else DistCpLoad template (checkpoint_path_of filepath i) (reader bs)),
           Barrier,
           Time (clock w (length (trace s) + 6 * i + 4)),
           Print (''Completed iteration '' @ str_nat i @ '' for '' @ operation @ '' ...'')])
          [0..<nat n])\<rparr>)"
  by (rule time_checkpoint_operation_quiet [OF assms])

theorem barriers_around_each_operation_witness:
  "quiet calm_world \<and>
   fst (time_checkpoint_operation calm_world
          \<lparr>writer = GCSDistributedWriter ''b'' ''p'', reader = GCSDistributedReader ''b'' ''p'',
           strategy_model = \<lparr>net = Module ''M'' [] [], dummy_tensors = None\<rparr>\<rparr>
          [] ''b'' 2 ''load'' \<lparr>net = Module ''M'' [] [], dummy_tensors = None\<rparr> init_st)
     = Inr [3, 3]"
proof -
  have q: "quiet calm_world" by (simp add: quiet_def calm_world_def)
  have o: "''load'' = ''save'' \<or> ''load'' = ''load''" by simp
  from barriers_around_each_operation [OF q o,
      where model = "\<lparr>net = Module ''M'' [] [], dummy_tensors = None\<rparr>" and s = init_st
        and bs = "\<lparr>writer = GCSDistributedWriter ''b'' ''p'', reader = GCSDistributedReader ''b'' ''p'',
           strategy_model = \<lparr>net = Module ''M'' [] [], dummy_tensors = None\<rparr>\<rparr>"
        and sd = "[]" and filepath = "''b''" and n = 2]
  obtain template s1 where
    "time_checkpoint_operation calm_world
          \<lparr>writer = GCSDistributedWriter ''b'' ''p'', reader = GCSDistributedReader ''b'' ''p'',
           strategy_model = \<lparr>net = Module ''M'' [] [], dummy_tensors = None\<rparr>\<rparr>
          [] ''b'' 2 ''load'' \<lparr>net = Module ''M'' [] [], dummy_tensors = None\<rparr> init_st
     = (Inr (map (\<lambda>i. clock calm_world (length (trace init_st) + 6 * i + 4)
                       - clock calm_world (length (trace init_st) + 6 * i + 1)) [0..<nat 2]),
        s1\<lparr>trace := trace init_st @ concat (map (\<lambda>i.
          [Barrier,
           Time (clock calm_world (length (trace init_st) + 6 * i + 1)),
           (if ''load'' = ''save''
            then DistCpSave [] (checkpoint_path_of ''b'' i) (GCSDistributedWriter ''b'' ''p'')
            else DistCpLoad template (checkpoint_path_of ''b'' i) (GCSDistributedReader ''b'' ''p'')),
           Barrier,
           Time (clock calm_world (length (trace init_st) + 6 * i + 4)),
           Print (''Completed iteration '' @ str_nat i @ '' for '' @ ''load'' @ '' ...'')])
          [0..<nat 2])\<rparr>)"
    by auto
  then have "fst (time_checkpoint_operation calm_world
          \<lparr>writer = GCSDistributedWriter ''b'' ''p'', reader = GCSDistributedReader ''b'' ''p'',
           strategy_model = \<lparr>net = Module ''M'' [] [], dummy_tensors = None\<rparr>\<rparr>
          [] ''b'' 2 ''load'' \<lparr>net = Module ''M'' [] [], dummy_tensors = None\<rparr> init_st)
     = Inr (map (\<lambda>i. clock calm_world (length (trace init_st) + 6 * i + 4)
                       - clock calm_world (length (trace init_st) + 6 * i + 1)) [0..<nat 2])"
    by simp
  also have "map (\<lambda>i. clock calm_world (length (trace init_st) + 6 * i + 4)
                       - clock calm_world (length (trace init_st) + 6 * i + 1)) [0..<nat 2] = [3, 3]"
    by (simp add: calm_world_def init_st_def eval_nat_numeral)
  finally show ?thesis using q by simp
qed

lemma printed_sizes_append [simp]:
  "printed_sizes (xs @ ys) = printed_sizes xs @ printed_sizes ys"
  by (induction xs rule: printed_sizes.induct) auto

lemma printed_seconds_append [simp]:
  "printed_seconds (xs @ ys) = printed_seconds xs @ printed_seconds ys"
  by (induction xs rule: printed_seconds.induct) auto

lemma printed_sizes_loop_save [simp]:
  "printed_sizes (loop_events w operation (\<lambda>i. DistCpSave d (f i) wr) k xs) = []"
  by (induction xs arbitrary: k) (auto simp: iteration_events_def)

lemma printed_sizes_loop_load [simp]:
  "printed_sizes (loop_events w operation (\<lambda>i. DistCpLoad d (f i) rd) k xs) = []"
  by (induction xs arbitrary: k) (auto simp: iteration_events_def)

lemma printed_seconds_loop_save [simp]:
  "printed_seconds (loop_events w operation (\<lambda>i. DistCpSave d (f i) wr) k xs) = []"
  by (induction xs arbitrary: k) (auto simp: iteration_events_def)

lemma printed_seconds_loop_load [simp]:
  "printed_seconds (loop_events w operation (\<lambda>i. DistCpLoad d (f i) rd) k xs) = []"
  by (induction xs arbitrary: k) (auto simp: iteration_events_def)


lemma printed_seconds_final_trace:
  "printed_seconds (final_trace w 0 world_size sz project filepath p n) =
     [(''Time taken to save checkpoint:'',
       sum_list (save_samples w n) / real (length (save_samples w n))),
      (''Time taken to load checkpoint:'',
       sum_list (load_samples w n) / real (length (load_samples w n)))]"
  by (simp add: final_trace_def startup_events_def save_events_def load_events_def
      report_events_def)




lemma run_benchmark_no_samples:
  assumes q: "quiet w" and sz: "0 \<le> sz" and dbg: "\<not> debug" and n: "n \<le> 0"
  shows "run_benchmark w 0 world_size sz project filepath p n debug init_st =
     (Inl StatisticsError, \<lparr>trace = startup_events 0 world_size project filepath,
                             next_storage = 3 * (4 + nat p)\<rparr>)"
proof -
  have dt: "dummy_tensors (simple_model sz p 0) = Some (padding_tensors sz (nat p) 4)"
    by (simp add: simple_model_def)
  have sd: "add_dummy_tensors (padding_tensors sz (nat p) 4)
              (state_dict (net (simple_model sz p 0))) = state_entries sz p 0"
    using add_dummy_tensors_simple_model [of sz p 0] by simp
  show ?thesis
    using dbg n
    by (simp add: run_benchmark_def seq_def setup_quiet [OF q] init_st_def
        SimpleModel_ok [OF sz]
        return_def BenchmarkStrategy_quiet [OF q] dt sd call_quiet [OF q]
        time_checkpoint_operation_save [OF q] time_checkpoint_operation_load [OF q]
        report_def of_result_def statistics_mean_def startup_events_def py_range_def)
qed

lemma saved_report_events [simp]: "saved (report_events rank world_size sd xs ys) = []"
  by (simp add: report_events_def)

lemma loaded_report_events [simp]: "loaded (report_events rank world_size sd xs ys) = []"
  by (simp add: report_events_def)

lemma main_nth:
  "r < nat (arg_world_size args) \<Longrightarrow>
   fst (main worlds (Inr args)) ! r =
     run_benchmark (worlds r) (int r) (arg_world_size args) (arg_layer_size args)
       (arg_project args) (arg_ckpt_dir_path args) (arg_padding_size args)
       (arg_sample_count args) (arg_debug args) init_st"
  by (simp add: main_def Let_def py_range_def)

lemma report_depends_on_means:
  "statistics_mean xs = statistics_mean xs' \<Longrightarrow> statistics_mean ys = statistics_mean ys' \<Longrightarrow>
   report w rank world_size sd debug xs ys = report w rank world_size sd debug xs' ys'"
  by (simp add: report_def)

lemma printed_seconds_other_rank:
  "rank \<noteq> 0 \<Longrightarrow> printed_seconds (final_trace w rank world_size sz project filepath p n) = []"
  by (simp add: final_trace_def startup_events_def save_events_def load_events_def)




text \<open>
  C7, as the code has it. For a positive sample count \<open>N\<close>, when no interaction raises,
  \<^verbatim>\<open>time_checkpoint_operation\<close> returns exactly \<open>N\<close> samples, each the end reading minus the
  start reading of its iteration; they are all non-negative exactly when in no iteration
  the end reading is below the start reading (\<^verbatim>\<open>time.time()\<close> is the wall clock: it may
  run backwards), hence whenever the clock is monotone. Their mean is their sum over \<open>N\<close>;
  rank 0 prints that mean for the save samples and for the load samples; the report
  depends on the two lists through their means only, and the other ranks print no time.
\<close>

theorem timing_samples_and_mean:
  assumes "quiet w" and "0 < n" and "operation = ''save'' \<or> operation = ''load''"
  shows
   "(\<exists>tms s'.
       time_checkpoint_operation w bs sd filepath n operation model s = (Inr tms, s') \<and>
       tms = map (\<lambda>i. clock w (length (trace s) + 6 * i + 4) - clock w (length (trace s) + 6 * i + 1))
               [0..<nat n] \<and>
       length tms = nat n \<and>
       ((\<forall>x \<in> set tms. 0 \<le> x) \<longleftrightarrow>
          (\<forall>i < nat n. clock w (length (trace s) + 6 * i + 1) \<le> clock w (length (trace s) + 6 * i + 4))) \<and>
       ((\<forall>j k. j \<le> k \<longrightarrow> clock w j \<le> clock w k) \<longrightarrow> (\<forall>x \<in> set tms. 0 \<le> x)) \<and>
       statistics_mean tms = Inr (sum_list tms / real (nat n)))
    \<and> (0 \<le> sz \<and> \<not> debug \<and> world_size \<noteq> 0 \<longrightarrow>
         printed_seconds (trace (snd (run_benchmark w 0 world_size sz project filepath p n debug init_st)))
         = [(''Time taken to save checkpoint:'',
             sum_list (map (\<lambda>i. clock w (7 + 6 * i + 4) - clock w (7 + 6 * i + 1)) [0..<nat n])
               / real (nat n)),
            (''Time taken to load checkpoint:'',
             sum_list (map (\<lambda>i. clock w (7 + 6 * nat n + 6 * i + 4) - clock w (7 + 6 * nat n + 6 * i + 1))
                         [0..<nat n])
               / real (nat n))])
    \<and> (0 \<le> sz \<and> rank \<noteq> 0 \<longrightarrow>
         printed_seconds (trace (snd (run_benchmark w rank world_size sz project filepath p n debug init_st))) = [])
    \<and> (statistics_mean xs = statistics_mean xs' \<and> statistics_mean ys = statistics_mean ys' \<longrightarrow>
         report w rank world_size sd debug xs ys = report w rank world_size sd debug xs' ys')"
proof -
  let ?tms = "map (\<lambda>i. clock w (length (trace s) + 6 * i + 4) - clock w (length (trace s) + 6 * i + 1))
               [0..<nat n]"
  from time_checkpoint_operation_quiet [OF assms(1,3), of model s bs sd filepath n]
  obtain s' where t: "time_checkpoint_operation w bs sd filepath n operation model s = (Inr ?tms, s')"
    by blast
  have l: "length ?tms = nat n" by simp
  have nn: "(\<forall>x \<in> set ?tms. 0 \<le> x) \<longleftrightarrow>
          (\<forall>i < nat n. clock w (length (trace s) + 6 * i + 1) \<le> clock w (length (trace s) + 6 * i + 4))"
    by auto
  have mo: "(\<forall>j k. j \<le> k \<longrightarrow> clock w j \<le> clock w k) \<longrightarrow> (\<forall>x \<in> set ?tms. 0 \<le> x)"
    by auto
  have ne: "?tms \<noteq> []" using assms(2) by simp
  have m: "statistics_mean ?tms = Inr (sum_list ?tms / real (nat n))"
    using ne by (simp add: statistics_mean_def del: map_is_Nil_conv)
  have a: "\<exists>tms s'.
       time_checkpoint_operation w bs sd filepath n operation model s = (Inr tms, s') \<and>
       tms = ?tms \<and> length tms = nat n \<and>
       ((\<forall>x \<in> set tms. 0 \<le> x) \<longleftrightarrow>
          (\<forall>i < nat n. clock w (length (trace s) + 6 * i + 1) \<le> clock w (length (trace s) + 6 * i + 4))) \<and>
       ((\<forall>j k. j \<le> k \<longrightarrow> clock w j \<le> clock w k) \<longrightarrow> (\<forall>x \<in> set tms. 0 \<le> x)) \<and>
       statistics_mean tms = Inr (sum_list tms / real (nat n))"
    by (rule exI [of _ ?tms], rule exI [of _ s']) (intro conjI t refl l nn mo m)
  have b: "0 \<le> sz \<and> \<not> debug \<and> world_size \<noteq> 0 \<longrightarrow>
         printed_seconds (trace (snd (run_benchmark w 0 world_size sz project filepath p n debug init_st)))
         = [(''Time taken to save checkpoint:'',
             sum_list (map (\<lambda>i. clock w (7 + 6 * i + 4) - clock w (7 + 6 * i + 1)) [0..<nat n])
               / real (nat n)),
            (''Time taken to load checkpoint:'',
             sum_list (map (\<lambda>i. clock w (7 + 6 * nat n + 6 * i + 4) - clock w (7 + 6 * nat n + 6 * i + 1))
                         [0..<nat n])
               / real (nat n))]"
  proof
    assume h: "0 \<le> sz \<and> \<not> debug \<and> world_size \<noteq> 0"
    then have h1: "\<not> ((0::int) = 0 \<and> debug)" "(0::int) = 0 \<longrightarrow> 0 < n \<and> world_size \<noteq> 0"
      using assms(2) by simp_all
    from h have sz: "0 \<le> sz" by simp
    show "printed_seconds (trace (snd (run_benchmark w 0 world_size sz project filepath p n debug init_st)))
         = [(''Time taken to save checkpoint:'',
             sum_list (map (\<lambda>i. clock w (7 + 6 * i + 4) - clock w (7 + 6 * i + 1)) [0..<nat n])
               / real (nat n)),
            (''Time taken to load checkpoint:'',
             sum_list (map (\<lambda>i. clock w (7 + 6 * nat n + 6 * i + 4) - clock w (7 + 6 * nat n + 6 * i + 1))
                         [0..<nat n])
               / real (nat n))]"
      by (simp add: run_benchmark_quiet [OF assms(1) sz h1] printed_seconds_final_trace
          save_samples_def load_samples_def py_range_def loop_samples_upt)
  qed
  have c: "0 \<le> sz \<and> rank \<noteq> 0 \<longrightarrow>
         printed_seconds (trace (snd (run_benchmark w rank world_size sz project filepath p n debug init_st))) = []"
  proof
    assume h: "0 \<le> sz \<and> rank \<noteq> 0"
    then have h1: "\<not> (rank = 0 \<and> debug)" "rank = 0 \<longrightarrow> 0 < n \<and> world_size \<noteq> 0" by simp_all
    from h have sz: "0 \<le> sz" and r: "rank \<noteq> 0" by simp_all
    show "printed_seconds (trace (snd (run_benchmark w rank world_size sz project filepath p n debug init_st))) = []"
      by (simp add: run_benchmark_quiet [OF assms(1) sz h1] printed_seconds_other_rank [OF r])
  qed
  have d: "statistics_mean xs = statistics_mean xs' \<and> statistics_mean ys = statistics_mean ys' \<longrightarrow>
         report w rank world_size sd debug xs ys = report w rank world_size sd debug xs' ys'"
    using report_depends_on_means by blast
  show ?thesis by (intro conjI a b c d)
qed

theorem timing_samples_and_mean_witness:
  "quiet calm_world \<and> (0::int) < 2 \<and>
   fst (time_checkpoint_operation calm_world
          \<lparr>writer = GCSDistributedWriter ''b'' ''p'', reader = GCSDistributedReader ''b'' ''p'',
           strategy_model = \<lparr>net = Module ''M'' [] [], dummy_tensors = None\<rparr>\<rparr>
          [] ''b'' 2 ''save'' \<lparr>net = Module ''M'' [] [], dummy_tensors = None\<rparr> init_st)
     = Inr [3, 3] \<and>
   statistics_mean [3, 3] = Inr 3 \<and>
   printed_seconds (trace (snd (run_benchmark calm_world 0 1 1 ''proj'' ''b'' 1 2 False init_st)))
     = [(''Time taken to save checkpoint:'', 3), (''Time taken to load checkpoint:'', 3)] \<and>
   printed_seconds (trace (snd (run_benchmark calm_world 1 2 1 ''proj'' ''b'' 1 2 False init_st)))
     = []"
proof -
  have q: "quiet calm_world" by (simp add: quiet_def calm_world_def)
  have n: "(0::int) < 2" by simp
  have o: "''save'' = ''save'' \<or> ''save'' = ''load''" by simp
  have m: "\<forall>j k. j \<le> k \<longrightarrow> clock calm_world j \<le> clock calm_world k"
    by (simp add: calm_world_def)
  let ?tco = "time_checkpoint_operation calm_world
          \<lparr>writer = GCSDistributedWriter ''b'' ''p'', reader = GCSDistributedReader ''b'' ''p'',
           strategy_model = \<lparr>net = Module ''M'' [] [], dummy_tensors = None\<rparr>\<rparr>
          [] ''b'' 2 ''save'' \<lparr>net = Module ''M'' [] [], dummy_tensors = None\<rparr> init_st"
  note T = timing_samples_and_mean [
      where model = "\<lparr>net = Module ''M'' [] [], dummy_tensors = None\<rparr>" and s = init_st
        and bs = "\<lparr>writer = GCSDistributedWriter ''b'' ''p'', reader = GCSDistributedReader ''b'' ''p'',
           strategy_model = \<lparr>net = Module ''M'' [] [], dummy_tensors = None\<rparr>\<rparr>"
        and sd = "[]" and filepath = "''b''" and sz = 1 and debug = False
        and project = "''proj''" and p = 1, OF q n o]
  from T [where world_size = 1, THEN conjunct1]
  obtain tms s' where a: "?tco = (Inr tms, s')"
    and b: "tms = map (\<lambda>i. clock calm_world (length (trace init_st) + 6 * i + 4)
                       - clock calm_world (length (trace init_st) + 6 * i + 1)) [0..<nat 2]"
    and d: "(\<forall>j k. j \<le> k \<longrightarrow> clock calm_world j \<le> clock calm_world k) \<longrightarrow> (\<forall>x \<in> set tms. 0 \<le> x)"
    and c: "statistics_mean tms = Inr (sum_list tms / real (nat 2))"
    by blast
  have t: "tms = [3, 3]"
    unfolding b by (simp add: calm_world_def init_st_def eval_nat_numeral)
  from c have c': "statistics_mean [3, 3] = Inr 3" unfolding t by simp
  have a': "fst ?tco = Inr [3, 3]" using a t by simp
  have "printed_seconds (trace (snd (run_benchmark calm_world 0 1 1 ''proj'' ''b'' 1 2 False init_st)))
      = [(''Time taken to save checkpoint:'',
             sum_list (map (\<lambda>i. clock calm_world (7 + 6 * i + 4) - clock calm_world (7 + 6 * i + 1)) [0..<nat 2])
               / real (nat 2)),
            (''Time taken to load checkpoint:'',
             sum_list (map (\<lambda>i. clock calm_world (7 + 6 * nat 2 + 6 * i + 4) - clock calm_world (7 + 6 * nat 2 + 6 * i + 1))
                         [0..<nat 2])
               / real (nat 2))]"
    using T [where xs = "[]" and ys = "[]" and xs' = "[]" and ys' = "[]" and rank = 1
          and world_size = 1,
             THEN conjunct2, THEN conjunct1] by simp
  then have e: "printed_seconds (trace (snd (run_benchmark calm_world 0 1 1 ''proj'' ''b'' 1 2 False init_st)))
     = [(''Time taken to save checkpoint:'', 3), (''Time taken to load checkpoint:'', 3)]"
    by (simp add: calm_world_def eval_nat_numeral)
  have f: "printed_seconds (trace (snd (run_benchmark calm_world 1 2 1 ''proj'' ''b'' 1 2 False init_st))) = []"
    using T [where xs = "[]" and ys = "[]" and xs' = "[]" and ys' = "[]" and rank = 1
          and world_size = 2,
             THEN conjunct2, THEN conjunct2, THEN conjunct1] by simp
  from q a' c' e f show ?thesis by simp
qed

theorem timing_samples_and_mean_counterexample:
  "quiet rewinding_world \<and>
   fst (time_checkpoint_operation rewinding_world
          \<lparr>writer = GCSDistributedWriter ''b'' ''p'', reader = GCSDistributedReader ''b'' ''p'',
           strategy_model = \<lparr>net = Module ''M'' [] [], dummy_tensors = None\<rparr>\<rparr>
          [] ''b'' 1 ''save'' \<lparr>net = Module ''M'' [] [], dummy_tensors = None\<rparr> init_st)
     = Inr [- 3]"
proof -
  have q: "quiet rewinding_world" by (simp add: quiet_def rewinding_world_def)
  have o: "''save'' = ''save'' \<or> ''save'' = ''load''" by simp
  let ?tco = "time_checkpoint_operation rewinding_world
          \<lparr>writer = GCSDistributedWriter ''b'' ''p'', reader = GCSDistributedReader ''b'' ''p'',
           strategy_model = \<lparr>net = Module ''M'' [] [], dummy_tensors = None\<rparr>\<rparr>
          [] ''b'' 1 ''save'' \<lparr>net = Module ''M'' [] [], dummy_tensors = None\<rparr> init_st"
  from time_checkpoint_operation_quiet [OF q o,
      where model = "\<lparr>net = Module ''M'' [] [], dummy_tensors = None\<rparr>" and s = init_st
        and bs = "\<lparr>writer = GCSDistributedWriter ''b'' ''p'', reader = GCSDistributedReader ''b'' ''p'',
           strategy_model = \<lparr>net = Module ''M'' [] [], dummy_tensors = None\<rparr>\<rparr>"
        and sd = "[]" and filepath = "''b''" and n = 1]
  obtain s' where a: "?tco = (Inr (map (\<lambda>i. clock rewinding_world (length (trace init_st) + 6 * i + 4)
                       - clock rewinding_world (length (trace init_st) + 6 * i + 1)) [0..<nat 1]), s')"
    by blast
  have "map (\<lambda>i. clock rewinding_world (length (trace init_st) + 6 * i + 4)
                       - clock rewinding_world (length (trace init_st) + 6 * i + 1)) [0..<nat 1] = [- 3]"
    by (simp add: rewinding_world_def init_st_def)
  with a q show ?thesis by simp
qed

end
